(* ===== verification/Prelude.thy ===== *)
theory Prelude
  imports Main "HOL-Library.Sublist"
begin

text \<open>
  Shared vocabulary of the development: the types that name the model's values
  (storage keys, timestamps), the collections of facts the component theories
  feed to the simplifier, and generic lemmas on lists that the components share.
\<close>

named_theorems eval_simps
  "equations that evaluate the model on concrete inputs"

named_theorems table_simps
  "characteristic equations of the table operations"

type_synonym key = int
  \<comment> \<open>the internal primary key: Prisma's \<open>Int\<close> column, a JavaScript number in the client\<close>

type_synonym timestamp = nat
  \<comment> \<open>milliseconds since the Unix epoch, the value a JavaScript \<open>Date\<close> holds\<close>

section \<open>Lists\<close>

lemma dropWhile_eq_self_hd:
  "xs \<noteq> [] \<Longrightarrow> \<not> P (hd xs) \<Longrightarrow> dropWhile P xs = xs"
  by (cases xs) simp_all

lemma takeWhile_all_eq_self:
  "\<forall>x \<in> set xs. P x \<Longrightarrow> takeWhile P xs = xs"
  by (induction xs) simp_all

lemma foldl_snoc_step:
  "foldl f a (xs @ [x]) = f (foldl f a xs) x"
  by simp

lemma sorted_wrt_less_snoc:
  "sorted_wrt (<) (xs @ [x :: 'a :: linorder]) \<longleftrightarrow>
     sorted_wrt (<) xs \<and> (\<forall>y \<in> set xs. y < x)"
  by (auto simp: sorted_wrt_append)

lemma sorted_wrt_less_distinct:
  "sorted_wrt (<) (xs :: 'a :: linorder list) \<Longrightarrow> distinct xs"
  by (induction xs) auto

lemma length_take_drop_le:
  "length (take n (drop m xs)) \<le> n"
  by simp

lemma take_drop_in_set:
  "x \<in> set (take n (drop m xs)) \<Longrightarrow> x \<in> set xs"
  by (meson in_set_dropD in_set_takeD)

lemma replicate_numeral:
  "replicate (numeral n) x = x # replicate (pred_numeral n) x"
  by (simp add: numeral_eq_Suc)

lemma eq_char_of_iff: "c = char_of n \<longleftrightarrow> take_bit 8 n = of_char c"
  by (metis char_of_eq_iff)

declare sublist_code(3) [eval_simps] char_of_eq_iff [eval_simps] eq_char_of_iff [eval_simps]

end
