(* ===== verification/JsText.thy ===== *)
theory JsText
  imports Prelude
begin

text \<open>
  The JavaScript string built-ins the sources call, on strings of UTF-16 code
  units below 256 (Isabelle's \<open>char\<close>): \<open>String.prototype.trim\<close>
  (\<open>index.ts\<close> lines 12, 15; \<open>persistence.ts\<close> lines 36, 71, 72),
  \<open>parseInt(_, 10)\<close> (\<open>index.ts\<close> lines 22, 23; \<open>persistence.ts\<close> lines 58,
  65, 79, 89), \<open>String(n)\<close> on an integer (\<open>persistence.ts\<close> line 99) and the
  case folding of the database's case-insensitive \<open>contains\<close>
  (\<open>persistence.ts\<close> lines 38, 39). Together they are the identifier codec of
  the spec (\<open>String\<close> encodes a key, \<open>parseInt\<close> decodes it).
  The theory proves the codec's round trip, that decoding is not injective on
  strings (distinct external ids name one key), and the shape of trimmed strings.
\<close>

section \<open>Whitespace and trimming\<close>

text \<open>ECMAScript's WhiteSpace and LineTerminator code units below 256: TAB, LF,
  VT, FF, CR, SPACE and NO-BREAK SPACE.\<close>

definition is_js_space :: "char \<Rightarrow> bool" where
  "is_js_space c \<longleftrightarrow>
     (let n = (of_char c :: nat) in n = 32 \<or> (9 \<le> n \<and> n \<le> 13) \<or> n = 160)"

definition trim_start :: "string \<Rightarrow> string" where
  "trim_start s = dropWhile is_js_space s"

definition trim_end :: "string \<Rightarrow> string" where
  "trim_end s = rev (dropWhile is_js_space (rev s))"

definition js_trim :: "string \<Rightarrow> string" where
  "js_trim s = trim_end (trim_start s)"

definition is_blank :: "string \<Rightarrow> bool" where
  "is_blank s \<longleftrightarrow> js_trim s = []"

section \<open>Decimal digits\<close>

definition is_decimal_digit :: "char \<Rightarrow> bool" where
  "is_decimal_digit c \<longleftrightarrow> (48::nat) \<le> of_char c \<and> of_char c \<le> (57::nat)"

definition digit_value :: "char \<Rightarrow> nat" where
  "digit_value c = of_char c - 48"

definition decimal_value :: "string \<Rightarrow> nat" where
  "decimal_value ds = foldl (\<lambda>acc c. 10 * acc + digit_value c) 0 ds"

definition digit_char :: "nat \<Rightarrow> char" where
  "digit_char d = char_of (48 + d)"

fun nat_to_decimal :: "nat \<Rightarrow> string" where
  "nat_to_decimal n =
     (if n < 10 then [digit_char n] else nat_to_decimal (n div 10) @ [digit_char (n mod 10)])"

declare nat_to_decimal.simps [simp del]

section \<open>parseInt and String\<close>

text \<open>\<open>parseInt(s, 10)\<close> (ECMAScript 19.2.5): skip leading white space, read one
  optional sign, take the longest run of decimal digits; no digit gives \<open>NaN\<close>
  (here \<open>None\<close>). JavaScript's \<open>-0\<close> is the integer 0 here: every caller
  treats the two alike (\<open>-0 || d\<close> is \<open>d\<close>, and the key \<open>-0\<close> is the key 0).\<close>

definition strip_sign :: "string \<Rightarrow> bool \<times> string" where
  "strip_sign t =
     (case t of
        [] \<Rightarrow> (False, [])
      | c # r \<Rightarrow>
          if c = CHR ''-'' then (True, r)
          else if c = CHR ''+'' then (False, r)
          else (False, c # r))"

definition js_parse_int :: "string \<Rightarrow> int option" where
  "js_parse_int s =
     (let (neg, u) = strip_sign (trim_start s);
          z = takeWhile is_decimal_digit u
      in if z = [] then None
         else Some (if neg then - int (decimal_value z) else int (decimal_value z)))"

text \<open>\<open>String(n)\<close> for an integral number below \<open>10\<^sup>2\<^sup>1\<close> is its decimal
  numeral, with a leading minus sign when negative.\<close>

definition js_string_of_int :: "int \<Rightarrow> string" where
  "js_string_of_int k =
     (if k < 0 then CHR ''-'' # nat_to_decimal (nat (- k)) else nat_to_decimal (nat k))"

section \<open>Case folding\<close>

text \<open>The case-insensitive comparison of the database folds letters to lower
  case; on this alphabet that is \<open>A\<close>..\<open>Z\<close> to \<open>a\<close>..\<open>z\<close>.\<close>

definition js_lower_char :: "char \<Rightarrow> char" where
  "js_lower_char c =
     (let n = (of_char c :: nat) in if 65 \<le> n \<and> n \<le> 90 then char_of (n + 32) else c)"

definition js_lower :: "string \<Rightarrow> string" where
  "js_lower s = map js_lower_char s"

definition contains_insensitive :: "string \<Rightarrow> string \<Rightarrow> bool" where
  "contains_insensitive hay needle \<longleftrightarrow> sublist (js_lower needle) (js_lower hay)"

lemmas js_text_defs [eval_simps] =
  is_js_space_def trim_start_def trim_end_def js_trim_def is_blank_def
  is_decimal_digit_def digit_value_def decimal_value_def digit_char_def
  strip_sign_def js_parse_int_def js_string_of_int_def
  js_lower_char_def js_lower_def contains_insensitive_def

section \<open>Trimming\<close>

lemma dropWhile_all_Nil: "\<forall>c \<in> set (dropWhile P xs). P c \<Longrightarrow> dropWhile P xs = []"
  by (metis hd_dropWhile list.set_sel(1))

lemma js_trim_Nil_iff: "js_trim s = [] \<longleftrightarrow> (\<forall>c \<in> set s. is_js_space c)"
proof
  assume "js_trim s = []"
  then have "\<forall>c \<in> set (trim_start s). is_js_space c"
    by (simp add: js_trim_def trim_end_def)
  then have "trim_start s = []"
    unfolding trim_start_def by (rule dropWhile_all_Nil)
  then show "\<forall>c \<in> set s. is_js_space c"
    by (simp add: trim_start_def)
next
  assume "\<forall>c \<in> set s. is_js_space c"
  then have "trim_start s = []"
    by (simp add: trim_start_def)
  then show "js_trim s = []"
    by (simp add: js_trim_def trim_end_def)
qed

lemma js_trim_last: "js_trim s \<noteq> [] \<Longrightarrow> \<not> is_js_space (last (js_trim s))"
  unfolding js_trim_def trim_end_def
  by (metis hd_dropWhile hd_rev rev_is_Nil_conv last_rev)

lemma js_trim_trim_ne: "js_trim s \<noteq> [] \<Longrightarrow> js_trim (js_trim s) \<noteq> []"
  using js_trim_last js_trim_Nil_iff last_in_set by blast

section \<open>The identifier codec\<close>

text \<open>Digits, signs and white space are disjoint classes of characters, and
  \<open>nat_to_decimal\<close> writes digits only: the facts \<open>parseInt\<close> needs to read
  back what \<open>String\<close> wrote.\<close>

lemma of_char_digit_char: "d < 10 \<Longrightarrow> (of_char (digit_char d) :: nat) = 48 + d"
  by (simp add: digit_char_def)

lemma digit_char_is_digit: "d < 10 \<Longrightarrow> is_decimal_digit (digit_char d)"
  by (simp add: is_decimal_digit_def of_char_digit_char)

lemma digit_value_digit_char: "d < 10 \<Longrightarrow> digit_value (digit_char d) = d"
  by (simp add: digit_value_def of_char_digit_char)

lemma nat_to_decimal_digits: "\<forall>c \<in> set (nat_to_decimal n). is_decimal_digit c"
proof (induction n rule: nat_to_decimal.induct)
  case (1 n)
  then show ?case
    by (subst nat_to_decimal.simps) (auto simp: digit_char_is_digit)
qed

lemma nat_to_decimal_ne: "nat_to_decimal n \<noteq> []"
  by (subst nat_to_decimal.simps) simp

lemma decimal_value_snoc:
  "decimal_value (ds @ [c]) = 10 * decimal_value ds + digit_value c"
  by (simp add: decimal_value_def)

lemma decimal_value_nat_to_decimal: "decimal_value (nat_to_decimal n) = n"
proof (induction n rule: nat_to_decimal.induct)
  case (1 n)
  show ?case
  proof (cases "n < 10")
    case True
    then show ?thesis
      by (subst nat_to_decimal.simps) (simp add: decimal_value_def digit_value_digit_char)
  next
    case False
    with "1.IH" have "decimal_value (nat_to_decimal (n div 10)) = n div 10" by simp
    with False show ?thesis
      by (subst nat_to_decimal.simps) (simp add: decimal_value_snoc digit_value_digit_char)
  qed
qed

lemma digit_not_space: "is_decimal_digit c \<Longrightarrow> \<not> is_js_space c"
  by (auto simp: is_decimal_digit_def is_js_space_def Let_def)

lemma digit_not_sign: "is_decimal_digit c \<Longrightarrow> c \<noteq> CHR ''-'' \<and> c \<noteq> CHR ''+''"
  by (auto simp: is_decimal_digit_def)

lemma strip_sign_digit_start:
  "xs \<noteq> [] \<Longrightarrow> is_decimal_digit (hd xs) \<Longrightarrow> strip_sign xs = (False, xs)"
  by (cases xs) (auto simp: strip_sign_def dest: digit_not_sign)

lemma trim_start_digit_start:
  "xs \<noteq> [] \<Longrightarrow> is_decimal_digit (hd xs) \<Longrightarrow> trim_start xs = xs"
  by (simp add: trim_start_def dropWhile_eq_self_hd digit_not_space)

lemma takeWhile_digits_append:
  "\<forall>c \<in> set ds. is_decimal_digit c \<Longrightarrow> \<not> (xs \<noteq> [] \<and> is_decimal_digit (hd xs)) \<Longrightarrow>
   takeWhile is_decimal_digit (ds @ xs) = ds"
  by (induction ds) (cases xs; simp)+

lemma nat_to_decimal_hd: "is_decimal_digit (hd (nat_to_decimal n))"
  using nat_to_decimal_digits nat_to_decimal_ne by (metis list.set_sel(1))

lemma js_parse_int_string_append:
  assumes "\<not> (xs \<noteq> [] \<and> is_decimal_digit (hd xs))"
  shows "js_parse_int (js_string_of_int k @ xs) = Some k"
proof -
  let ?ds = "nat_to_decimal (nat \<bar>k\<bar>)"
  have ne: "?ds \<noteq> []" by (rule nat_to_decimal_ne)
  have hd: "is_decimal_digit (hd ?ds)" by (rule nat_to_decimal_hd)
  have tw: "takeWhile is_decimal_digit (?ds @ xs) = ?ds"
    using nat_to_decimal_digits assms by (rule takeWhile_digits_append)
  have val: "decimal_value ?ds = nat \<bar>k\<bar>" by (rule decimal_value_nat_to_decimal)
  show ?thesis
  proof (cases "k < 0")
    case True
    have "trim_start (CHR ''-'' # ?ds @ xs) = CHR ''-'' # ?ds @ xs"
      by (simp add: trim_start_def is_js_space_def)
    with True tw val ne show ?thesis
      by (simp add: js_parse_int_def js_string_of_int_def strip_sign_def)
  next
    case False
    have "trim_start (?ds @ xs) = ?ds @ xs"
      using ne hd by (simp add: trim_start_digit_start)
    moreover have "strip_sign (?ds @ xs) = (False, ?ds @ xs)"
      using ne hd by (simp add: strip_sign_digit_start)
    ultimately show ?thesis using False tw val ne
      by (simp add: js_parse_int_def js_string_of_int_def)
  qed
qed

lemma js_parse_int_encode: "js_parse_int (js_string_of_int k) = Some k"
  using js_parse_int_string_append [of "[]" k] by simp

lemma js_string_of_int_inj: "js_string_of_int a = js_string_of_int b \<longleftrightarrow> a = b"
  by (metis js_parse_int_encode option.inject)

text \<open>C14: Decoding reads only the leading numeral: any text after the digits
  of an encoded key that does not start with a digit is ignored, so the
  external ids \<open>"7abc"\<close>, \<open>"7.5"\<close> and \<open>"7e3"\<close> all name the key 7 and
  an unparsable tail is not an unparsable id.\<close>

theorem decode_ignores_suffix:
  assumes "\<not> (xs \<noteq> [] \<and> is_decimal_digit (hd xs))"
  shows "js_parse_int (js_string_of_int k @ xs) = Some k"
  using assms by (rule js_parse_int_string_append)

theorem decode_ignores_suffix_witness:
  "\<not> (''e3'' \<noteq> [] \<and> is_decimal_digit (hd ''e3'')) \<and>
   js_parse_int (js_string_of_int 7 @ ''e3'') = Some 7"
proof -
  have h: "\<not> (''e3'' \<noteq> [] \<and> is_decimal_digit (hd ''e3''))"
    by (simp add: is_decimal_digit_def)
  show ?thesis using h decode_ignores_suffix [OF h, of 7] by simp
qed

end
