(* ===== verification/Store.thy ===== *)
theory Store
  imports JsText
begin

text \<open>
  The backing table of the service as the Prisma client sees it. The model
  \<open>Resource\<close> (its schema file is not among the sources) is a PostgreSQL
  table: Prisma's \<open>mode: 'insensitive'\<close> (\<open>persistence.ts\<close> lines 38, 39) exists
  on PostgreSQL only. Its columns are an auto-incremented \<open>Int\<close> key (a
  SERIAL, 32-bit signed, drawn from a sequence that never goes back), \<open>name\<close>,
  \<open>details\<close>, \<open>createdAt\<close> (\<open>@default(now())\<close>) and \<open>updatedAt\<close>
  (\<open>@updatedAt\<close>). This theory models the table as the list of its rows in key
  order and the sequence's next value, and the six client calls the sources
  make (\<open>create\<close>, \<open>findUnique\<close>, \<open>findMany\<close>, \<open>count\<close>, \<open>update\<close>,
  \<open>delete\<close>) as functions on it, each failing the way the client throws:
  an argument that is not a 32-bit integer is a validation error, a missing
  row for \<open>update\<close>/\<open>delete\<close> is \<open>P2025\<close> (record not found).
  The invariant \<open>table_inv\<close> (keys strictly ascending, positive, below the
  sequence) is kept by every call.
\<close>

section \<open>Values crossing the client boundary\<close>

text \<open>A JSON value as the request body parser produces it; only its JavaScript
  type matters to the code (\<open>typeof\<close>, \<open>??\<close>).\<close>

datatype jval = JUndefined | JNull | JBool bool | JNumber int | JString string | JCompound

definition nullish_default :: "jval \<Rightarrow> string \<Rightarrow> jval" where
  "nullish_default v d = (case v of JUndefined \<Rightarrow> JString d | JNull \<Rightarrow> JString d | _ \<Rightarrow> v)"

datatype db_error =
    ValidationError   \<comment> \<open>\<open>PrismaClientValidationError\<close> / value out of the column's range\<close>
  | RecordNotFound    \<comment> \<open>\<open>P2025\<close>: the row to update or delete does not exist\<close>
  | SequenceExhausted \<comment> \<open>the SERIAL sequence passed \<open>2\<^sup>3\<^sup>1 - 1\<close>\<close>

definition int32_max :: int where
  "int32_max = 2147483647"

definition is_int32 :: "int \<Rightarrow> bool" where
  "is_int32 k \<longleftrightarrow> - int32_max - 1 \<le> k \<and> k \<le> int32_max"

text \<open>A key argument as the client receives it: the JavaScript number
  \<open>parseInt\<close> produced, \<open>None\<close> for \<open>NaN\<close>.\<close>

definition check_key :: "int option \<Rightarrow> db_error + key" where
  "check_key v = (case v of
                    None \<Rightarrow> Inl ValidationError
                  | Some k \<Rightarrow> if is_int32 k then Inr k else Inl ValidationError)"

definition string_arg :: "jval \<Rightarrow> db_error + string" where
  "string_arg v = (case v of JString s \<Rightarrow> Inr s | _ \<Rightarrow> Inl ValidationError)"

section \<open>The table\<close>

record row =
  row_id :: key
  row_name :: string
  row_details :: string
  row_created :: timestamp
  row_updated :: timestamp

record table =
  rows :: "row list"
  next_key :: key

definition empty_table :: table where
  "empty_table = \<lparr>rows = [], next_key = 1\<rparr>"

definition keys :: "table \<Rightarrow> key list" where
  "keys t = map row_id (rows t)"

definition table_inv :: "table \<Rightarrow> bool" where
  "table_inv t \<longleftrightarrow>
     sorted_wrt (<) (keys t) \<and> (\<forall>k \<in> set (keys t). 1 \<le> k \<and> k < next_key t) \<and>
     1 \<le> next_key t \<and> next_key t \<le> int32_max + 1"

definition lookup_row :: "table \<Rightarrow> key \<Rightarrow> row option" where
  "lookup_row t k = find (\<lambda>r. row_id r = k) (rows t)"

text \<open>The abstract view of the table: a finite map from keys to rows.\<close>

definition table_map :: "table \<Rightarrow> key \<rightharpoonup> row" where
  "table_map t = map_of (map (\<lambda>r. (row_id r, r)) (rows t))"

text \<open>A \<open>where\<close> filter of \<open>findMany\<close>/\<open>count\<close>: none (\<open>{}\<close>), or the
  disjunction of two case-insensitive \<open>contains\<close> on \<open>name\<close> and \<open>details\<close>.\<close>

datatype where_filter = MatchAll | NameOrDetailsContains string

fun where_matches :: "where_filter \<Rightarrow> row \<Rightarrow> bool" where
  "where_matches MatchAll r = True"
| "where_matches (NameOrDetailsContains q) r =
     (contains_insensitive (row_name r) q \<or> contains_insensitive (row_details r) q)"

section \<open>The client calls\<close>

text \<open>\<open>prisma.resource.create({data: {name, details}})\<close>: the sequence gives the
  key, both timestamps are the time of the insert, the row is appended (its key
  is above every key in the table).\<close>

definition db_create ::
  "table \<Rightarrow> jval \<Rightarrow> jval \<Rightarrow> timestamp \<Rightarrow> db_error + (row \<times> table)" where
  "db_create t name details now =
     (case string_arg name of
        Inl e \<Rightarrow> Inl e
      | Inr n \<Rightarrow>
          (case string_arg details of
             Inl e \<Rightarrow> Inl e
           | Inr d \<Rightarrow>
               if int32_max < next_key t then Inl SequenceExhausted
               else
                 (let r = \<lparr>row_id = next_key t, row_name = n, row_details = d,
                           row_created = now, row_updated = now\<rparr>
                  in Inr (r, \<lparr>rows = rows t @ [r], next_key = next_key t + 1\<rparr>))))"

text \<open>\<open>prisma.resource.findUnique({where: {id}})\<close>.\<close>

definition db_find_unique :: "table \<Rightarrow> int option \<Rightarrow> db_error + row option" where
  "db_find_unique t v = (case check_key v of Inl e \<Rightarrow> Inl e | Inr k \<Rightarrow> Inr (lookup_row t k))"

text \<open>\<open>prisma.resource.findMany({where, orderBy: {id: 'asc'}, skip, take})\<close> and
  \<open>prisma.resource.count({where})\<close>; the rows are kept in key order, so the
  order is the list's.\<close>

definition db_find_many :: "table \<Rightarrow> where_filter \<Rightarrow> nat \<Rightarrow> nat \<Rightarrow> row list" where
  "db_find_many t w skip take_n = take take_n (drop skip (filter (where_matches w) (rows t)))"

definition db_count :: "table \<Rightarrow> where_filter \<Rightarrow> nat" where
  "db_count t w = length (filter (where_matches w) (rows t))"

text \<open>\<open>prisma.resource.update({where: {id}, data})\<close>: the fields present in
  \<open>data\<close> are written and \<open>updatedAt\<close> is set, even when \<open>data\<close> is empty.\<close>

definition apply_update :: "string option \<Rightarrow> string option \<Rightarrow> timestamp \<Rightarrow> row \<Rightarrow> row" where
  "apply_update n d now r =
     r\<lparr>row_name := (case n of None \<Rightarrow> row_name r | Some x \<Rightarrow> x),
       row_details := (case d of None \<Rightarrow> row_details r | Some x \<Rightarrow> x),
       row_updated := now\<rparr>"

definition db_update ::
  "table \<Rightarrow> int option \<Rightarrow> string option \<Rightarrow> string option \<Rightarrow> timestamp \<Rightarrow> db_error + (row \<times> table)" where
  "db_update t v n d now =
     (case check_key v of
        Inl e \<Rightarrow> Inl e
      | Inr k \<Rightarrow>
          (case lookup_row t k of
             None \<Rightarrow> Inl RecordNotFound
           | Some r \<Rightarrow>
               Inr (apply_update n d now r,
                    t\<lparr>rows := map (\<lambda>x. if row_id x = k then apply_update n d now x else x) (rows t)\<rparr>)))"

text \<open>\<open>prisma.resource.delete({where: {id}})\<close> returns the deleted row.\<close>

definition db_delete :: "table \<Rightarrow> int option \<Rightarrow> db_error + (row \<times> table)" where
  "db_delete t v =
     (case check_key v of
        Inl e \<Rightarrow> Inl e
      | Inr k \<Rightarrow>
          (case lookup_row t k of
             None \<Rightarrow> Inl RecordNotFound
           | Some r \<Rightarrow> Inr (r, t\<lparr>rows := filter (\<lambda>x. row_id x \<noteq> k) (rows t)\<rparr>)))"

lemmas store_defs [eval_simps] =
  nullish_default_def int32_max_def is_int32_def check_key_def string_arg_def
  empty_table_def keys_def lookup_row_def db_create_def db_find_unique_def
  db_find_many_def db_count_def apply_update_def db_update_def db_delete_def

section \<open>Lookup and the invariant\<close>

lemma lookup_row_SomeD:
  "lookup_row t k = Some r \<Longrightarrow> r \<in> set (rows t) \<and> row_id r = k"
  by (auto simp: lookup_row_def dest: find_Some_iff [THEN iffD1] simp: find_Some_iff nth_mem)

lemma lookup_row_None_iff:
  "lookup_row t k = None \<longleftrightarrow> k \<notin> set (keys t)"
  by (auto simp: lookup_row_def keys_def find_None_iff)

lemma find_distinct_key:
  "distinct (map f xs) \<Longrightarrow> x \<in> set xs \<Longrightarrow> find (\<lambda>y. f y = f x) xs = Some x"
  by (induction xs) (auto simp: image_iff)

lemma lookup_row_member:
  "table_inv t \<Longrightarrow> r \<in> set (rows t) \<Longrightarrow> lookup_row t (row_id r) = Some r"
  unfolding lookup_row_def table_inv_def keys_def
  by (blast intro: find_distinct_key sorted_wrt_less_distinct)

lemma table_inv_empty: "table_inv empty_table"
  by (simp add: table_inv_def empty_table_def keys_def int32_max_def)

lemma check_key_Inr: "check_key v = Inr k \<Longrightarrow> v = Some k"
  by (auto simp: check_key_def split: option.splits if_splits)

lemma db_create_Inr:
  assumes "db_create t n d now = Inr (r, t')"
  shows "row_id r = next_key t \<and> next_key t' = next_key t + 1 \<and> rows t' = rows t @ [r] \<and>
         row_created r = now \<and> row_updated r = now \<and> next_key t \<le> int32_max \<and>
         n = JString (row_name r) \<and> d = JString (row_details r)"
  using assms
  by (auto simp: db_create_def string_arg_def Let_def split: jval.splits if_splits)

lemma db_create_inv:
  assumes "table_inv t" and "db_create t n d now = Inr (r, t')"
  shows "table_inv t'"
proof -
  from assms(2) have c: "row_id r = next_key t" "next_key t' = next_key t + 1" "rows t' = rows t @ [r]"
    "next_key t \<le> int32_max"
    by (simp_all add: db_create_Inr)
  with assms(1) show ?thesis
    by (auto simp: table_inv_def keys_def sorted_wrt_less_snoc)
qed

lemma db_create_lookup:
  assumes "table_inv t" and "db_create t n d now = Inr (r, t')"
  shows "lookup_row t' (row_id r) = Some r"
proof -
  from assms have "table_inv t'" by (rule db_create_inv)
  moreover from assms(2) have "r \<in> set (rows t')" by (simp add: db_create_Inr)
  ultimately show ?thesis by (rule lookup_row_member)
qed

lemma keys_map_same_id:
  "(\<And>x. row_id (f x) = row_id x) \<Longrightarrow> map row_id (map f xs) = map row_id xs"
  by (induction xs) simp_all

lemma apply_update_id [simp]: "row_id (apply_update n d now r) = row_id r"
  by (simp add: apply_update_def)

lemma db_update_Inr:
  assumes "db_update t v n d now = Inr (r', t')"
  shows "\<exists>k r. v = Some k \<and> lookup_row t k = Some r \<and> r' = apply_update n d now r \<and>
     t' = t\<lparr>rows := map (\<lambda>x. if row_id x = k then apply_update n d now x else x) (rows t)\<rparr>"
  using assms
  by (auto simp: db_update_def dest: check_key_Inr split: sum.splits option.splits)

lemma db_update_keys:
  assumes "db_update t v n d now = Inr (r', t')"
  shows "keys t' = keys t \<and> next_key t' = next_key t"
proof -
  from db_update_Inr [OF assms] obtain k r where
    t': "t' = t\<lparr>rows := map (\<lambda>x. if row_id x = k then apply_update n d now x else x) (rows t)\<rparr>"
    by blast
  show ?thesis unfolding t' keys_def by (simp add: keys_map_same_id)
qed

lemma db_update_inv:
  "table_inv t \<Longrightarrow> db_update t v n d now = Inr (r', t') \<Longrightarrow> table_inv t'"
  by (simp add: table_inv_def db_update_keys)

lemma db_delete_Inr:
  assumes "db_delete t v = Inr (r, t')"
  shows "\<exists>k. v = Some k \<and> lookup_row t k = Some r \<and>
     t' = t\<lparr>rows := filter (\<lambda>x. row_id x \<noteq> k) (rows t)\<rparr>"
  using assms
  by (auto simp: db_delete_def dest: check_key_Inr split: sum.splits option.splits)

lemma db_delete_inv:
  assumes "table_inv t" and "db_delete t v = Inr (r, t')"
  shows "table_inv t'"
proof -
  from db_delete_Inr [OF assms(2)] obtain k where
    t': "t' = t\<lparr>rows := filter (\<lambda>x. row_id x \<noteq> k) (rows t)\<rparr>" by blast
  have "keys t' = filter (\<lambda>x. x \<noteq> k) (keys t)"
    unfolding t' keys_def by (simp add: filter_map comp_def)
  with assms(1) show ?thesis
    unfolding table_inv_def by (auto simp: sorted_wrt_filter t')
qed

lemma table_inv_key_int32:
  "table_inv t \<Longrightarrow> k \<in> set (keys t) \<Longrightarrow> is_int32 k"
  by (auto simp: table_inv_def is_int32_def int32_max_def)

lemma check_key_int32: "is_int32 k \<Longrightarrow> check_key (Some k) = Inr k"
  by (simp add: check_key_def)

lemma db_delete_lookup:
  assumes "db_delete t v = Inr (r, t')"
  shows "lookup_row t' (row_id r) = None"
proof -
  from db_delete_Inr [OF assms] obtain k where
    "lookup_row t k = Some r" and t': "t' = t\<lparr>rows := filter (\<lambda>x. row_id x \<noteq> k) (rows t)\<rparr>"
    by blast
  then have "row_id r = k" by (simp add: lookup_row_SomeD)
  then show ?thesis by (auto simp: lookup_row_None_iff keys_def t')
qed

section \<open>Refinement of a finite map\<close>

lemma map_of_keyed_find:
  "map_of (map (\<lambda>r. (f r, r)) xs) k = find (\<lambda>r. f r = k) xs"
  by (induction xs) auto

lemma lookup_row_table_map: "lookup_row t k = table_map t k"
  by (simp add: lookup_row_def table_map_def map_of_keyed_find)

lemma map_of_keyed_snoc_fresh:
  "f x \<notin> set (map f xs) \<Longrightarrow> map_of (map (\<lambda>r. (f r, r)) (xs @ [x])) = (map_of (map (\<lambda>r. (f r, r)) xs))(f x \<mapsto> x)"
  by (induction xs) (auto simp: fun_upd_twist)

text \<open>The client calls refine a finite map from keys to rows (\<open>table_map\<close>):
  \<open>create\<close> inserts under a fresh key, \<open>update\<close> overwrites the row under its key,
  \<open>delete\<close> removes its key.\<close>

lemma db_create_table_map:
  assumes "table_inv t" and "db_create t n d now = Inr (r, t')"
  shows "row_id r \<notin> dom (table_map t) \<and> table_map t' = (table_map t)(row_id r \<mapsto> r)"
proof -
  from assms(2) have c: "row_id r = next_key t" "rows t' = rows t @ [r]"
    by (simp_all add: db_create_Inr)
  from assms(1) have "row_id r \<notin> set (keys t)"
    using c by (auto simp: table_inv_def)
  then show ?thesis
    using c by (simp add: table_map_def keys_def map_of_keyed_snoc_fresh dom_map_of_conv_image_fst
        image_iff del: map_append)
qed

lemma map_of_keyed_map_update:
  "(\<And>x. f (g x) = f x) \<Longrightarrow>
   map_of (map (\<lambda>r. (f r, r)) (map (\<lambda>x. if f x = k then g x else x) xs)) j =
   (if j = k then map_option g (map_of (map (\<lambda>r. (f r, r)) xs) k) else map_of (map (\<lambda>r. (f r, r)) xs) j)"
  by (induction xs) auto

lemma db_update_table_map:
  assumes "db_update t v n d now = Inr (r', t')"
  shows "\<exists>k r. v = Some k \<and> table_map t k = Some r \<and> r' = apply_update n d now r \<and>
     table_map t' = (table_map t)(k \<mapsto> apply_update n d now r)"
proof -
  from db_update_Inr [OF assms] obtain k r where k: "v = Some k" and l: "lookup_row t k = Some r"
    and r': "r' = apply_update n d now r"
    and t': "t' = t\<lparr>rows := map (\<lambda>x. if row_id x = k then apply_update n d now x else x) (rows t)\<rparr>"
    by blast
  from l have m: "table_map t k = Some r" by (simp add: lookup_row_table_map)
  have "table_map t' = (table_map t)(k \<mapsto> apply_update n d now r)"
    using m by (simp add: t' table_map_def map_of_keyed_map_update fun_eq_iff del: map_map)
  with k m r' show ?thesis by blast
qed

lemma map_of_keyed_filter:
  "map_of (map (\<lambda>r. (f r, r)) (filter (\<lambda>x. f x \<noteq> k) xs)) = (map_of (map (\<lambda>r. (f r, r)) xs))(k := None)"
  by (induction xs) (auto simp: fun_eq_iff)

lemma db_delete_table_map:
  assumes "db_delete t v = Inr (r, t')"
  shows "\<exists>k. v = Some k \<and> table_map t k = Some r \<and> table_map t' = (table_map t)(k := None)"
proof -
  from db_delete_Inr [OF assms] obtain k where k: "v = Some k" and l: "lookup_row t k = Some r"
    and t': "t' = t\<lparr>rows := filter (\<lambda>x. row_id x \<noteq> k) (rows t)\<rparr>"
    by blast
  then show ?thesis
    by (auto simp: lookup_row_table_map table_map_def map_of_keyed_filter)
qed

end
