(* ===== verification/IsoDate.thy ===== *)
theory IsoDate
  imports JsText
begin

text \<open>
  \<open>Date.prototype.toISOString\<close>, which the record mapper applies to both
  timestamps (\<open>persistence.ts\<close> lines 102, 103). A timestamp is a count of
  milliseconds since 1970-01-01T00:00:00Z (the database's timestamps are never
  earlier); the calendar date is computed from the day number with the
  proleptic Gregorian civil-from-days algorithm, and the string is
  \<open>YYYY-MM-DDTHH:mm:ss.sssZ\<close>, with the six-digit signed year form
  \<open>+YYYYYY\<close> beyond year 9999 as ECMAScript prescribes.
\<close>

definition pad_left :: "nat \<Rightarrow> string \<Rightarrow> string" where
  "pad_left w s = replicate (w - length s) (CHR ''0'') @ s"

definition pad_num :: "nat \<Rightarrow> nat \<Rightarrow> string" where
  "pad_num w n = pad_left w (nat_to_decimal n)"

text \<open>Day number (days since 1970-01-01) to (year, month, day).\<close>

definition civil_from_days :: "nat \<Rightarrow> nat \<times> nat \<times> nat" where
  "civil_from_days days =
     (let z = days + 719468;
          era = z div 146097;
          doe = z mod 146097;
          yoe = (doe - doe div 1460 + doe div 36524 - doe div 146096) div 365;
          doy = doe - (365 * yoe + yoe div 4 - yoe div 100);
          mp = (5 * doy + 2) div 153;
          d = doy - (153 * mp + 2) div 5 + 1;
          m = (if mp < 10 then mp + 3 else mp - 9);
          y = yoe + era * 400
      in (if m \<le> 2 then y + 1 else y, m, d))"

definition ms_per_day :: nat where
  "ms_per_day = 86400000"

definition to_iso_string :: "timestamp \<Rightarrow> string" where
  "to_iso_string t =
     (let (y, mo, d) = civil_from_days (t div ms_per_day);
          ms = t mod ms_per_day;
          year = (if y \<le> 9999 then pad_num 4 y else CHR ''+'' # pad_num 6 y)
      in year @ ''-'' @ pad_num 2 mo @ ''-'' @ pad_num 2 d @ ''T'' @
         pad_num 2 (ms div 3600000) @ '':'' @ pad_num 2 (ms div 60000 mod 60) @ '':'' @
         pad_num 2 (ms div 1000 mod 60) @ ''.'' @ pad_num 3 (ms mod 1000) @ ''Z'')"

lemmas iso_defs =
  pad_left_def pad_num_def civil_from_days_def ms_per_day_def to_iso_string_def

end
