(* ===== verification/Persistence.thy ===== *)
theory Persistence
  imports Store IsoDate
begin

text \<open>
  The resource store of \<open>src/problem5/src/persistence.ts\<close>: the external
  \<open>Resource\<close> and the input shapes, the record mapper \<open>mapResource\<close>, the
  field normaliser of \<open>updateResource\<close>, the query builder of
  \<open>listResources\<close>, and the five operations, each a function of the table
  (the Prisma client's state, theory \<open>Store\<close>) returning the new table where
  it writes. A thrown client error is \<open>Inl\<close>; \<open>null\<close> is \<open>None\<close>.
\<close>

section \<open>Data\<close>

text \<open>\<open>interface Resource\<close> (lines 3--9) and \<open>ResourceInput\<close> (lines 11--14).
  \<open>name\<close> reaches \<open>createResource\<close> as a string; \<open>details\<close> is whatever
  JSON value the request carried.\<close>

record resource =
  res_id :: string
  res_name :: string
  res_details :: string
  res_created_at :: string
  res_updated_at :: string

record resource_input =
  in_name :: string
  in_details :: jval

record partial_input =
  upd_name :: jval
  upd_details :: jval

record list_result =
  total :: nat
  items :: "resource list"

section \<open>Record mapper\<close>

definition mapResource :: "row \<Rightarrow> resource" where
  "mapResource r =
     \<lparr>res_id = js_string_of_int (row_id r), res_name = row_name r, res_details = row_details r,
      res_created_at = to_iso_string (row_created r), res_updated_at = to_iso_string (row_updated r)\<rparr>"

section \<open>Operations\<close>

text \<open>\<open>migrate\<close> (lines 18--21) does nothing.\<close>

definition migrate :: "table \<Rightarrow> table" where
  "migrate t = t"

definition createResource ::
  "table \<Rightarrow> resource_input \<Rightarrow> timestamp \<Rightarrow> db_error + (resource \<times> table)" where
  "createResource t input now =
     (case db_create t (JString (in_name input)) (nullish_default (in_details input) '''') now of
        Inl e \<Rightarrow> Inl e
      | Inr (r, t') \<Rightarrow> Inr (mapResource r, t'))"

text \<open>The filter of \<open>listResources\<close> (lines 36--41): \<open>q && q.trim() !== ''\<close>
  selects the \<open>OR\<close> of the two \<open>contains\<close>, with \<open>q\<close> itself (untrimmed) as
  the pattern.\<close>

definition build_where :: "string option \<Rightarrow> where_filter" where
  "build_where q =
     (case q of
        None \<Rightarrow> MatchAll
      | Some s \<Rightarrow> if s \<noteq> [] \<and> js_trim s \<noteq> [] then NameOrDetailsContains s else MatchAll)"

text \<open>\<open>listResources\<close> (lines 33--54); its caller passes a limit in
  \<open>[1, 100]\<close> and an offset of at least 0, as natural numbers here.\<close>

definition listResources :: "table \<Rightarrow> string option \<Rightarrow> nat \<Rightarrow> nat \<Rightarrow> list_result" where
  "listResources t q limit offset =
     (let w = build_where q
      in \<lparr>total = db_count t w, items = map mapResource (db_find_many t w offset limit)\<rparr>)"

definition getResource :: "table \<Rightarrow> string \<Rightarrow> db_error + resource option" where
  "getResource t i =
     (case db_find_unique t (js_parse_int i) of
        Inl e \<Rightarrow> Inl e
      | Inr None \<Rightarrow> Inr None
      | Inr (Some r) \<Rightarrow> Inr (Some (mapResource r)))"

text \<open>The field normaliser of \<open>updateResource\<close> (lines 70--76): a string
  \<open>name\<close> that is not blank is written trimmed, a string \<open>details\<close> is
  written as is, anything else is left out of the update.\<close>

definition update_data :: "partial_input \<Rightarrow> string option \<times> string option" where
  "update_data input =
     ((case upd_name input of
         JString s \<Rightarrow> if js_trim s \<noteq> [] then Some (js_trim s) else None
       | _ \<Rightarrow> None),
      (case upd_details input of JString s \<Rightarrow> Some s | _ \<Rightarrow> None))"

text \<open>The second half of \<open>updateResource\<close> (lines 70--83), run once
  \<open>findUnique\<close> has found the row: it issues the update with the key parsed
  again.\<close>

definition update_write ::
  "table \<Rightarrow> string \<Rightarrow> partial_input \<Rightarrow> timestamp \<Rightarrow> db_error + (resource option \<times> table)" where
  "update_write t i input now =
     (let (n, d) = update_data input
      in case db_update t (js_parse_int i) n d now of
           Inl e \<Rightarrow> Inl e
         | Inr (r, t') \<Rightarrow> Inr (Some (mapResource r), t'))"

definition updateResource ::
  "table \<Rightarrow> string \<Rightarrow> partial_input \<Rightarrow> timestamp \<Rightarrow> db_error + (resource option \<times> table)" where
  "updateResource t i input now =
     (case db_find_unique t (js_parse_int i) of
        Inl e \<Rightarrow> Inl e
      | Inr None \<Rightarrow> Inr (None, t)
      | Inr (Some _) \<Rightarrow> update_write t i input now)"

text \<open>\<open>deleteResource\<close> (lines 86--95) catches every client error and returns
  \<open>null\<close>, leaving the table as it was.\<close>

definition deleteResource :: "table \<Rightarrow> string \<Rightarrow> resource option \<times> table" where
  "deleteResource t i =
     (case db_delete t (js_parse_int i) of
        Inl _ \<Rightarrow> (None, t)
      | Inr (r, t') \<Rightarrow> (Some (mapResource r), t'))"

section \<open>Abstract view\<close>

text \<open>The store as the routes see it: a finite map from keys to external
  \<open>Resource\<close>s, the specification the five operations refine.\<close>

definition resource_view :: "table \<Rightarrow> key \<rightharpoonup> resource" where
  "resource_view t = (\<lambda>k. map_option mapResource (table_map t k))"

lemmas persistence_defs [eval_simps] =
  mapResource_def migrate_def createResource_def build_where_def listResources_def
  getResource_def update_data_def update_write_def updateResource_def deleteResource_def

section \<open>Properties of the operations\<close>

lemma table_inv_row_int32:
  "table_inv t \<Longrightarrow> r \<in> set (rows t) \<Longrightarrow> is_int32 (row_id r)"
  by (auto simp: keys_def intro: table_inv_key_int32)

lemma db_find_unique_encode:
  "is_int32 k \<Longrightarrow> db_find_unique t (js_parse_int (js_string_of_int k)) = Inr (lookup_row t k)"
  by (simp add: db_find_unique_def js_parse_int_encode check_key_int32)

lemma createResource_Inr:
  assumes "createResource t input now = Inr (res, t')"
  shows "\<exists>r. db_create t (JString (in_name input)) (nullish_default (in_details input) '''') now = Inr (r, t')
             \<and> res = mapResource r"
  using assms by (auto simp: createResource_def split: sum.splits)

lemma get_after_create:
  assumes "table_inv t" and "createResource t input now = Inr (res, t')"
  shows "getResource t' (res_id res) = Inr (Some res)"
proof -
  obtain r where c: "db_create t (JString (in_name input)) (nullish_default (in_details input) '''') now = Inr (r, t')"
    and res: "res = mapResource r"
    using createResource_Inr [OF assms(2)] by blast
  from assms(1) c have inv': "table_inv t'" by (rule db_create_inv)
  from assms(1) c have look: "lookup_row t' (row_id r) = Some r" by (rule db_create_lookup)
  from c have "r \<in> set (rows t')" by (simp add: db_create_Inr)
  with inv' have "is_int32 (row_id r)" by (rule table_inv_row_int32)
  with look show ?thesis
    by (simp add: getResource_def res mapResource_def db_find_unique_encode)
qed

lemma deleteResource_Some:
  assumes "deleteResource t i = (Some res, t')"
  shows "\<exists>r k. js_parse_int i = Some k \<and> is_int32 k \<and> db_delete t (Some k) = Inr (r, t') \<and>
     lookup_row t k = Some r \<and> res = mapResource r"
proof -
  obtain r where d: "db_delete t (js_parse_int i) = Inr (r, t')" and res: "res = mapResource r"
    using assms by (auto simp: deleteResource_def split: sum.splits)
  from db_delete_Inr [OF d] obtain k where k: "js_parse_int i = Some k" and l: "lookup_row t k = Some r"
    by blast
  from d k have "is_int32 k"
    by (auto simp: db_delete_def check_key_def split: if_splits)
  with k l d res show ?thesis by auto
qed

lemma deleteResource_gone:
  assumes "deleteResource t i = (Some res, t')"
  shows "\<exists>k. js_parse_int i = Some k \<and> is_int32 k \<and> lookup_row t k \<noteq> None \<and>
             lookup_row t' k = None"
proof -
  obtain r k where k: "js_parse_int i = Some k" and i32: "is_int32 k" and
      d: "db_delete t (Some k) = Inr (r, t')" and l: "lookup_row t k = Some r"
    using deleteResource_Some [OF assms] by blast
  from l have rk: "row_id r = k" by (simp add: lookup_row_SomeD)
  from d have "lookup_row t' (row_id r) = None" by (rule db_delete_lookup)
  with k i32 l rk show ?thesis by auto
qed

text \<open>C9: Deleting is final: after \<open>deleteResource\<close> has returned a record for an id, \<open>getResource\<close> at that id reports absence and a second \<open>deleteResource\<close> returns \<open>null\<close>, leaving the table alone.\<close>

theorem delete_then_absent:
  assumes "deleteResource t i = (Some res, t')"
  shows "getResource t' i = Inr None \<and> deleteResource t' i = (None, t')"
  using deleteResource_gone [OF assms]
  by (auto simp: getResource_def deleteResource_def db_find_unique_def db_delete_def check_key_int32)

theorem delete_then_absent_witness:
  "deleteResource \<lparr>rows = [\<lparr>row_id = 1, row_name = ''Widget'', row_details = ''blue'', row_created = 0, row_updated = 0\<rparr>], next_key = 2\<rparr> ''1'' = (Some (mapResource \<lparr>row_id = 1, row_name = ''Widget'', row_details = ''blue'', row_created = 0, row_updated = 0\<rparr>), \<lparr>rows = [], next_key = 2\<rparr>) \<and>
   getResource \<lparr>rows = [], next_key = 2\<rparr> ''1'' = Inr None \<and> deleteResource \<lparr>rows = [], next_key = 2\<rparr> ''1'' = (None, \<lparr>rows = [], next_key = 2\<rparr>)"
proof -
  have d: "deleteResource \<lparr>rows = [\<lparr>row_id = 1, row_name = ''Widget'', row_details = ''blue'', row_created = 0, row_updated = 0\<rparr>], next_key = 2\<rparr> ''1'' = (Some (mapResource \<lparr>row_id = 1, row_name = ''Widget'', row_details = ''blue'', row_created = 0, row_updated = 0\<rparr>), \<lparr>rows = [], next_key = 2\<rparr>)"
    by (simp add: deleteResource_def db_delete_def check_key_def is_int32_def int32_max_def lookup_row_def js_text_defs)
  show ?thesis using d delete_then_absent [OF d] by simp
qed

text \<open>C11: An id without a leading numeral (\<open>parseInt\<close> gives \<open>NaN\<close>) is not treated as not-found by \<open>getResource\<close> and \<open>updateResource\<close>: the client rejects \<open>NaN\<close> and they throw a validation error; only \<open>deleteResource\<close>, which swallows every error, answers \<open>null\<close>.\<close>

theorem unparsable_id:
  assumes "js_parse_int i = None"
  shows "getResource t i = Inl ValidationError \<and> updateResource t i p now = Inl ValidationError \<and>
         deleteResource t i = (None, t)"
  using assms
  by (simp add: getResource_def updateResource_def deleteResource_def db_find_unique_def
      db_delete_def check_key_def)

theorem unparsable_id_witness:
  "js_parse_int ''abc'' = None \<and> getResource \<lparr>rows = [\<lparr>row_id = 1, row_name = ''Widget'', row_details = ''blue'', row_created = 0, row_updated = 0\<rparr>], next_key = 2\<rparr> ''abc'' = Inl ValidationError \<and>
   updateResource \<lparr>rows = [\<lparr>row_id = 1, row_name = ''Widget'', row_details = ''blue'', row_created = 0, row_updated = 0\<rparr>], next_key = 2\<rparr> ''abc'' \<lparr>upd_name = JUndefined, upd_details = JString ''red''\<rparr> 7 = Inl ValidationError \<and> deleteResource \<lparr>rows = [\<lparr>row_id = 1, row_name = ''Widget'', row_details = ''blue'', row_created = 0, row_updated = 0\<rparr>], next_key = 2\<rparr> ''abc'' = (None, \<lparr>rows = [\<lparr>row_id = 1, row_name = ''Widget'', row_details = ''blue'', row_created = 0, row_updated = 0\<rparr>], next_key = 2\<rparr>)"
proof -
  have n: "js_parse_int ''abc'' = None" by (simp add: js_text_defs)
  show ?thesis using n unparsable_id [OF n, of "\<lparr>rows = [\<lparr>row_id = 1, row_name = ''Widget'', row_details = ''blue'', row_created = 0, row_updated = 0\<rparr>], next_key = 2\<rparr>" "\<lparr>upd_name = JUndefined, upd_details = JString ''red''\<rparr>" 7] by simp
qed

text \<open>C12: \<open>updateResource\<close> is two client calls. If a \<open>deleteResource\<close> of the same id completes between them, the first call has found the row, the second (\<open>update_write\<close>) throws \<open>P2025\<close> (record not found) instead of the function returning \<open>null\<close>; run after the delete as a whole, \<open>updateResource\<close> returns \<open>null\<close>.\<close>

theorem update_after_concurrent_delete:
  assumes "deleteResource t i = (Some res, t2)"
  shows "(\<exists>r. db_find_unique t (js_parse_int i) = Inr (Some r)) \<and>
         update_write t2 i p now = Inl RecordNotFound \<and>
         updateResource t2 i p now = Inr (None, t2)"
  using deleteResource_gone [OF assms]
  by (auto simp: update_write_def updateResource_def db_find_unique_def db_update_def
      check_key_int32 split: prod.splits)

theorem update_after_concurrent_delete_witness:
  "deleteResource \<lparr>rows = [\<lparr>row_id = 1, row_name = ''Widget'', row_details = ''blue'', row_created = 0, row_updated = 0\<rparr>], next_key = 2\<rparr> ''1'' = (Some (mapResource \<lparr>row_id = 1, row_name = ''Widget'', row_details = ''blue'', row_created = 0, row_updated = 0\<rparr>), \<lparr>rows = [], next_key = 2\<rparr>) \<and>
   (\<exists>r. db_find_unique \<lparr>rows = [\<lparr>row_id = 1, row_name = ''Widget'', row_details = ''blue'', row_created = 0, row_updated = 0\<rparr>], next_key = 2\<rparr> (js_parse_int ''1'') = Inr (Some r)) \<and>
   update_write \<lparr>rows = [], next_key = 2\<rparr> ''1'' \<lparr>upd_name = JUndefined, upd_details = JString ''red''\<rparr> 7 = Inl RecordNotFound \<and>
   updateResource \<lparr>rows = [], next_key = 2\<rparr> ''1'' \<lparr>upd_name = JUndefined, upd_details = JString ''red''\<rparr> 7 = Inr (None, \<lparr>rows = [], next_key = 2\<rparr>)"
proof -
  have d: "deleteResource \<lparr>rows = [\<lparr>row_id = 1, row_name = ''Widget'', row_details = ''blue'', row_created = 0, row_updated = 0\<rparr>], next_key = 2\<rparr> ''1'' = (Some (mapResource \<lparr>row_id = 1, row_name = ''Widget'', row_details = ''blue'', row_created = 0, row_updated = 0\<rparr>), \<lparr>rows = [], next_key = 2\<rparr>)"
    by (simp add: deleteResource_def db_delete_def check_key_def is_int32_def int32_max_def lookup_row_def js_text_defs)
  show ?thesis using d update_after_concurrent_delete [OF d, of "\<lparr>upd_name = JUndefined, upd_details = JString ''red''\<rparr>" 7] by simp
qed

lemma db_delete_next_key: "db_delete t v = Inr (r, t') \<Longrightarrow> next_key t' = next_key t"
  by (auto dest!: db_delete_Inr)

text \<open>C4: Keys are never reused: a resource created after a delete gets an external id different from the deleted one.\<close>

theorem key_not_reused:
  assumes "table_inv t" and "deleteResource t i = (Some res, t1)"
    and "createResource t1 input now = Inr (res', t2)"
  shows "res_id res' \<noteq> res_id res"
proof -
  obtain r k where d: "db_delete t (Some k) = Inr (r, t1)" and l: "lookup_row t k = Some r"
      and res: "res = mapResource r"
    using deleteResource_Some [OF assms(2)] by blast
  obtain r' where c: "db_create t1 (JString (in_name input)) (nullish_default (in_details input) '''') now = Inr (r', t2)"
      and res': "res' = mapResource r'"
    using createResource_Inr [OF assms(3)] by blast
  from l have "row_id r \<in> set (keys t)" by (auto simp: keys_def dest: lookup_row_SomeD)
  with assms(1) have "row_id r < next_key t" by (simp add: table_inv_def)
  moreover from d have "next_key t1 = next_key t" by (rule db_delete_next_key)
  moreover from c have "row_id r' = next_key t1" by (simp add: db_create_Inr)
  ultimately show ?thesis
    by (simp add: res res' mapResource_def js_string_of_int_inj)
qed

theorem key_not_reused_witness:
  "table_inv \<lparr>rows = [\<lparr>row_id = 1, row_name = ''Widget'', row_details = ''blue'', row_created = 0, row_updated = 0\<rparr>], next_key = 2\<rparr> \<and> deleteResource \<lparr>rows = [\<lparr>row_id = 1, row_name = ''Widget'', row_details = ''blue'', row_created = 0, row_updated = 0\<rparr>], next_key = 2\<rparr> ''1'' = (Some (mapResource \<lparr>row_id = 1, row_name = ''Widget'', row_details = ''blue'', row_created = 0, row_updated = 0\<rparr>), \<lparr>rows = [], next_key = 2\<rparr>) \<and>
   createResource \<lparr>rows = [], next_key = 2\<rparr> \<lparr>in_name = ''Gadget'', in_details = JUndefined\<rparr> 5 = Inr (mapResource \<lparr>row_id = 2, row_name = ''Gadget'', row_details = '''', row_created = 5, row_updated = 5\<rparr>, \<lparr>rows = [\<lparr>row_id = 2, row_name = ''Gadget'', row_details = '''', row_created = 5, row_updated = 5\<rparr>], next_key = 3\<rparr>) \<and>
   res_id (mapResource \<lparr>row_id = 2, row_name = ''Gadget'', row_details = '''', row_created = 5, row_updated = 5\<rparr>) \<noteq> res_id (mapResource \<lparr>row_id = 1, row_name = ''Widget'', row_details = ''blue'', row_created = 0, row_updated = 0\<rparr>)"
proof -
  have inv: "table_inv \<lparr>rows = [\<lparr>row_id = 1, row_name = ''Widget'', row_details = ''blue'', row_created = 0, row_updated = 0\<rparr>], next_key = 2\<rparr>" by (simp add: table_inv_def keys_def int32_max_def)
  have d: "deleteResource \<lparr>rows = [\<lparr>row_id = 1, row_name = ''Widget'', row_details = ''blue'', row_created = 0, row_updated = 0\<rparr>], next_key = 2\<rparr> ''1'' = (Some (mapResource \<lparr>row_id = 1, row_name = ''Widget'', row_details = ''blue'', row_created = 0, row_updated = 0\<rparr>), \<lparr>rows = [], next_key = 2\<rparr>)"
    by (simp add: deleteResource_def db_delete_def check_key_def is_int32_def int32_max_def lookup_row_def js_text_defs)
  have c: "createResource \<lparr>rows = [], next_key = 2\<rparr> \<lparr>in_name = ''Gadget'', in_details = JUndefined\<rparr> 5 = Inr (mapResource \<lparr>row_id = 2, row_name = ''Gadget'', row_details = '''', row_created = 5, row_updated = 5\<rparr>, \<lparr>rows = [\<lparr>row_id = 2, row_name = ''Gadget'', row_details = '''', row_created = 5, row_updated = 5\<rparr>], next_key = 3\<rparr>)"
    by (simp add: createResource_def db_create_def string_arg_def nullish_default_def empty_table_def int32_max_def Let_def)
  show ?thesis using inv d c key_not_reused [OF inv d c] by simp
qed

section \<open>Listing, update and create\<close>

lemma is_js_space_lower [simp]: "is_js_space (js_lower_char c) = is_js_space c"
  by (auto simp: is_js_space_def js_lower_char_def Let_def)

lemma all_space_lower:
  "(\<forall>c \<in> set (js_lower s). is_js_space c) \<longleftrightarrow> (\<forall>c \<in> set s. is_js_space c)"
  by (simp add: js_lower_def)

lemma build_where_lower:
  assumes "js_lower q1 = js_lower q2"
  shows "where_matches (build_where (Some q1)) = where_matches (build_where (Some q2))"
proof -
  have len: "q1 = [] \<longleftrightarrow> q2 = []"
    using assms by (metis js_lower_def map_is_Nil_conv)
  have blank: "js_trim q1 = [] \<longleftrightarrow> js_trim q2 = []"
    using assms by (metis all_space_lower js_trim_Nil_iff)
  show ?thesis
    using len blank assms by (auto simp: build_where_def contains_insensitive_def fun_eq_iff)
qed

text \<open>C7: Search is case-insensitive: two queries with the same lower-case form list the same page and the same total, and for a non-blank query the total counts exactly the records whose name or details contain the query ignoring case, and the page is the \<open>[offset, offset + limit)\<close> slice of those records in key order.\<close>

theorem listResources_lower:
  assumes "js_lower q1 = js_lower q2"
  shows "listResources t (Some q1) lim off = listResources t (Some q2) lim off \<and>
    (js_trim q1 \<noteq> [] \<longrightarrow>
      total (listResources t (Some q1) lim off) =
        length (filter (\<lambda>r. sublist (js_lower q1) (js_lower (row_name r)) \<or>
                             sublist (js_lower q1) (js_lower (row_details r))) (rows t)) \<and>
      items (listResources t (Some q1) lim off) =
        map mapResource (take lim (drop off (filter (\<lambda>r. sublist (js_lower q1) (js_lower (row_name r)) \<or>
                             sublist (js_lower q1) (js_lower (row_details r))) (rows t)))))"
proof (rule conjI)
  show "listResources t (Some q1) lim off = listResources t (Some q2) lim off"
    using build_where_lower [OF assms]
    by (simp add: listResources_def db_count_def db_find_many_def Let_def)
  have ne: "js_trim q1 \<noteq> [] \<Longrightarrow> q1 \<noteq> []" by (auto simp: js_trim_Nil_iff)
  have w: "where_matches (NameOrDetailsContains q1) = (\<lambda>r. sublist (js_lower q1) (js_lower (row_name r)) \<or>
                             sublist (js_lower q1) (js_lower (row_details r)))"
    by (simp add: fun_eq_iff contains_insensitive_def)
  from ne show "js_trim q1 \<noteq> [] \<longrightarrow>
      total (listResources t (Some q1) lim off) = length (filter (\<lambda>r. sublist (js_lower q1) (js_lower (row_name r)) \<or>
                             sublist (js_lower q1) (js_lower (row_details r))) (rows t)) \<and>
      items (listResources t (Some q1) lim off) = map mapResource (take lim (drop off (filter (\<lambda>r. sublist (js_lower q1) (js_lower (row_name r)) \<or>
                             sublist (js_lower q1) (js_lower (row_details r))) (rows t))))"
    by (simp add: listResources_def build_where_def db_count_def db_find_many_def w Let_def)
qed

theorem listResources_lower_witness:
  "js_lower ''WID'' = js_lower ''wid'' \<and> js_trim ''WID'' \<noteq> [] \<and>
   total (listResources \<lparr>rows = [\<lparr>row_id = 1, row_name = ''Widget'', row_details = ''blue'', row_created = 0, row_updated = 0\<rparr>,
                                \<lparr>row_id = 2, row_name = ''Gadget'', row_details = ''red'', row_created = 0, row_updated = 0\<rparr>], next_key = 3\<rparr>
           (Some ''WID'') 20 0) = 1 \<and>
   items (listResources \<lparr>rows = [\<lparr>row_id = 1, row_name = ''Widget'', row_details = ''blue'', row_created = 0, row_updated = 0\<rparr>,
                                \<lparr>row_id = 2, row_name = ''Gadget'', row_details = ''red'', row_created = 0, row_updated = 0\<rparr>], next_key = 3\<rparr>
           (Some ''WID'') 20 0) = [mapResource \<lparr>row_id = 1, row_name = ''Widget'', row_details = ''blue'', row_created = 0, row_updated = 0\<rparr>]"
proof -
  have h: "js_lower ''WID'' = js_lower ''wid''" by (simp add: eval_simps)
  have b: "js_trim ''WID'' \<noteq> []" by (simp add: eval_simps)
  have f: "filter (\<lambda>r. sublist (js_lower ''WID'') (js_lower (row_name r)) \<or> sublist (js_lower ''WID'') (js_lower (row_details r)))
      [\<lparr>row_id = 1, row_name = ''Widget'', row_details = ''blue'', row_created = 0, row_updated = 0\<rparr>,
       \<lparr>row_id = 2, row_name = ''Gadget'', row_details = ''red'', row_created = (0::nat), row_updated = 0\<rparr>] =
      [\<lparr>row_id = 1, row_name = ''Widget'', row_details = ''blue'', row_created = 0, row_updated = 0\<rparr>]"
    by (simp add: eval_simps)
  note c = conjunct2 [OF listResources_lower [OF h, of "\<lparr>rows = [\<lparr>row_id = 1, row_name = ''Widget'', row_details = ''blue'', row_created = 0, row_updated = 0\<rparr>,
                                \<lparr>row_id = 2, row_name = ''Gadget'', row_details = ''red'', row_created = 0, row_updated = 0\<rparr>], next_key = 3\<rparr>" 20 0]]
  from c b have "total (listResources \<lparr>rows = [\<lparr>row_id = 1, row_name = ''Widget'', row_details = ''blue'', row_created = 0, row_updated = 0\<rparr>,
                                \<lparr>row_id = 2, row_name = ''Gadget'', row_details = ''red'', row_created = 0, row_updated = 0\<rparr>], next_key = 3\<rparr> (Some ''WID'') 20 0) = 1 \<and>
      items (listResources \<lparr>rows = [\<lparr>row_id = 1, row_name = ''Widget'', row_details = ''blue'', row_created = 0, row_updated = 0\<rparr>,
                                \<lparr>row_id = 2, row_name = ''Gadget'', row_details = ''red'', row_created = 0, row_updated = 0\<rparr>], next_key = 3\<rparr> (Some ''WID'') 20 0) =
        [mapResource \<lparr>row_id = 1, row_name = ''Widget'', row_details = ''blue'', row_created = 0, row_updated = 0\<rparr>]"
    unfolding table.select_convs f by simp
  with h b show ?thesis by blast
qed

text \<open>C5: Count invariance: with no search text, or a blank one, the listing's \<open>total\<close> is the number of stored records, whatever the limit and offset.\<close>

theorem listResources_total_all:
  assumes "q = None \<or> (\<exists>s. q = Some s \<and> js_trim s = [])"
  shows "total (listResources t q lim off) = length (rows t)"
  using assms by (auto simp: listResources_def build_where_def db_count_def)

theorem listResources_total_all_witness:
  "(Some ''  '' = None \<or> (\<exists>s. Some ''  '' = Some s \<and> js_trim s = [])) \<and>
   total (listResources \<lparr>rows = [\<lparr>row_id = 1, row_name = ''Widget'', row_details = ''blue'', row_created = 0, row_updated = 0\<rparr>], next_key = 2\<rparr> (Some ''  '') 1 5) = length (rows \<lparr>rows = [\<lparr>row_id = 1, row_name = ''Widget'', row_details = ''blue'', row_created = 0, row_updated = 0\<rparr>], next_key = 2\<rparr>)"
proof -
  have h: "Some ''  '' = None \<or> (\<exists>s. Some ''  '' = Some s \<and> js_trim s = [])"
    by (simp add: js_text_defs)
  show ?thesis using h listResources_total_all [OF h, of "\<lparr>rows = [\<lparr>row_id = 1, row_name = ''Widget'', row_details = ''blue'', row_created = 0, row_updated = 0\<rparr>], next_key = 2\<rparr>" 1 5] by simp
qed

lemma res_id_mapResource: "js_parse_int (res_id (mapResource r)) = Some (row_id r)"
  by (simp add: mapResource_def js_parse_int_encode)

text \<open>C6: The listing's page: it holds \<open>min limit (total - offset)\<close> resources, whose ids decode to stored keys in strictly ascending order.\<close>

theorem listResources_page:
  assumes "table_inv t"
  shows "length (items (listResources t q lim off)) = min lim (total (listResources t q lim off) - off) \<and>
         (\<exists>ks. sorted_wrt (<) ks \<and> set ks \<subseteq> set (keys t) \<and>
               map (\<lambda>x. js_parse_int (res_id x)) (items (listResources t q lim off)) = map Some ks)"
proof -
  let ?sel = "take lim (drop off (filter (where_matches (build_where q)) (rows t)))"
  have sorted: "sorted_wrt (<) (map row_id (rows t))"
    using assms by (simp add: table_inv_def keys_def)
  then have "sorted_wrt (<) (map row_id (filter (where_matches (build_where q)) (rows t)))"
    by (simp add: sorted_wrt_map sorted_wrt_filter)
  then have "sorted_wrt (<) (map row_id ?sel)"
    by (metis drop_map sorted_wrt_drop sorted_wrt_take take_map)
  moreover have "set (map row_id ?sel) \<subseteq> set (keys t)"
    by (auto simp: keys_def dest: take_drop_in_set)
  moreover have "map (\<lambda>x. js_parse_int (res_id x)) (map mapResource ?sel) = map Some (map row_id ?sel)"
    by (simp add: res_id_mapResource)
  ultimately have "\<exists>ks. sorted_wrt (<) ks \<and> set ks \<subseteq> set (keys t) \<and>
      map (\<lambda>x. js_parse_int (res_id x)) (map mapResource ?sel) = map Some ks"
    by blast
  moreover have "items (listResources t q lim off) = map mapResource ?sel"
    by (simp add: listResources_def db_find_many_def Let_def)
  moreover have "length (items (listResources t q lim off)) = min lim (total (listResources t q lim off) - off)"
    by (simp add: listResources_def db_find_many_def db_count_def Let_def)
  ultimately show ?thesis by simp
qed

theorem listResources_page_witness:
  "table_inv \<lparr>rows = [\<lparr>row_id = 1, row_name = ''Widget'', row_details = ''blue'', row_created = 0, row_updated = 0\<rparr>], next_key = 2\<rparr> \<and>
   length (items (listResources \<lparr>rows = [\<lparr>row_id = 1, row_name = ''Widget'', row_details = ''blue'', row_created = 0, row_updated = 0\<rparr>], next_key = 2\<rparr> None 20 0)) = min 20 (total (listResources \<lparr>rows = [\<lparr>row_id = 1, row_name = ''Widget'', row_details = ''blue'', row_created = 0, row_updated = 0\<rparr>], next_key = 2\<rparr> None 20 0) - 0) \<and>
   (\<exists>ks. sorted_wrt (<) ks \<and> set ks \<subseteq> set (keys \<lparr>rows = [\<lparr>row_id = 1, row_name = ''Widget'', row_details = ''blue'', row_created = 0, row_updated = 0\<rparr>], next_key = 2\<rparr>) \<and>
      map (\<lambda>x. js_parse_int (res_id x)) (items (listResources \<lparr>rows = [\<lparr>row_id = 1, row_name = ''Widget'', row_details = ''blue'', row_created = 0, row_updated = 0\<rparr>], next_key = 2\<rparr> None 20 0)) = map Some ks)"
proof -
  have inv: "table_inv \<lparr>rows = [\<lparr>row_id = 1, row_name = ''Widget'', row_details = ''blue'', row_created = 0, row_updated = 0\<rparr>], next_key = 2\<rparr>" by (simp add: table_inv_def keys_def int32_max_def)
  show ?thesis using inv listResources_page [OF inv, of None 20 0] by simp
qed

lemma updateResource_found:
  assumes "table_inv t" and "r \<in> set (rows t)"
  shows "\<exists>t'. updateResource t (js_string_of_int (row_id r)) p now =
     Inr (Some (mapResource (apply_update (fst (update_data p)) (snd (update_data p)) now r)), t')"
proof -
  have "is_int32 (row_id r)" using assms by (rule table_inv_row_int32)
  moreover have "lookup_row t (row_id r) = Some r" using assms by (rule lookup_row_member)
  ultimately show ?thesis
    by (simp add: updateResource_def update_write_def db_find_unique_def db_update_def
        js_parse_int_encode check_key_int32 split: prod.splits)
qed

text \<open>C8: Partial update, every branch: the returned resource keeps its id and \<open>createdAt\<close>, takes the trimmed \<open>name\<close> only when a non-blank string is given, takes \<open>details\<close> whenever it is a string (the empty string included), keeps each field that is not given, and always carries the new \<open>updatedAt\<close>.\<close>

theorem update_fields:
  assumes "table_inv t" and "r \<in> set (rows t)"
    and "updateResource t (js_string_of_int (row_id r)) p now = Inr (Some res, t')"
  shows "res_id res = js_string_of_int (row_id r) \<and>
         res_name res = (case upd_name p of
                           JString s \<Rightarrow> if js_trim s \<noteq> [] then js_trim s else row_name r
                         | _ \<Rightarrow> row_name r) \<and>
         res_details res = (case upd_details p of JString s \<Rightarrow> s | _ \<Rightarrow> row_details r) \<and>
         res_created_at res = to_iso_string (row_created r) \<and>
         res_updated_at res = to_iso_string now"
proof -
  from updateResource_found [OF assms(1,2), of p now] assms(3)
  have "res = mapResource (apply_update (fst (update_data p)) (snd (update_data p)) now r)"
    by auto
  then show ?thesis
    by (simp add: mapResource_def apply_update_def update_data_def split: jval.splits)
qed

theorem update_fields_witness:
  "table_inv \<lparr>rows = [\<lparr>row_id = 1, row_name = ''Widget'', row_details = ''blue'', row_created = 0, row_updated = 0\<rparr>], next_key = 2\<rparr> \<and> \<lparr>row_id = 1, row_name = ''Widget'', row_details = ''blue'', row_created = 0, row_updated = 0\<rparr> \<in> set (rows \<lparr>rows = [\<lparr>row_id = 1, row_name = ''Widget'', row_details = ''blue'', row_created = 0, row_updated = 0\<rparr>], next_key = 2\<rparr>) \<and>
   updateResource \<lparr>rows = [\<lparr>row_id = 1, row_name = ''Widget'', row_details = ''blue'', row_created = 0, row_updated = 0\<rparr>], next_key = 2\<rparr> (js_string_of_int (row_id \<lparr>row_id = 1, row_name = ''Widget'', row_details = ''blue'', row_created = 0, row_updated = 0\<rparr>)) \<lparr>upd_name = JUndefined, upd_details = JString ''red''\<rparr> 7 = Inr (Some (mapResource \<lparr>row_id = 1, row_name = ''Widget'', row_details = ''red'', row_created = 0, row_updated = 7\<rparr>), \<lparr>rows = [\<lparr>row_id = 1, row_name = ''Widget'', row_details = ''red'', row_created = 0, row_updated = 7\<rparr>], next_key = 2\<rparr>) \<and>
   res_name (mapResource \<lparr>row_id = 1, row_name = ''Widget'', row_details = ''red'', row_created = 0, row_updated = 7\<rparr>) = row_name \<lparr>row_id = 1, row_name = ''Widget'', row_details = ''blue'', row_created = 0, row_updated = 0\<rparr> \<and> res_details (mapResource \<lparr>row_id = 1, row_name = ''Widget'', row_details = ''red'', row_created = 0, row_updated = 7\<rparr>) = ''red'' \<and>
   res_created_at (mapResource \<lparr>row_id = 1, row_name = ''Widget'', row_details = ''red'', row_created = 0, row_updated = 7\<rparr>) = to_iso_string 0 \<and> res_updated_at (mapResource \<lparr>row_id = 1, row_name = ''Widget'', row_details = ''red'', row_created = 0, row_updated = 7\<rparr>) = to_iso_string 7"
proof -
  have inv: "table_inv \<lparr>rows = [\<lparr>row_id = 1, row_name = ''Widget'', row_details = ''blue'', row_created = 0, row_updated = 0\<rparr>], next_key = 2\<rparr>" by (simp add: table_inv_def keys_def int32_max_def)
  have mem: "\<lparr>row_id = 1, row_name = ''Widget'', row_details = ''blue'', row_created = 0, row_updated = 0\<rparr> \<in> set (rows \<lparr>rows = [\<lparr>row_id = 1, row_name = ''Widget'', row_details = ''blue'', row_created = 0, row_updated = 0\<rparr>], next_key = 2\<rparr>)" by simp
  have u: "updateResource \<lparr>rows = [\<lparr>row_id = 1, row_name = ''Widget'', row_details = ''blue'', row_created = 0, row_updated = 0\<rparr>], next_key = 2\<rparr> (js_string_of_int (row_id \<lparr>row_id = 1, row_name = ''Widget'', row_details = ''blue'', row_created = 0, row_updated = 0\<rparr>)) \<lparr>upd_name = JUndefined, upd_details = JString ''red''\<rparr> 7 = Inr (Some (mapResource \<lparr>row_id = 1, row_name = ''Widget'', row_details = ''red'', row_created = 0, row_updated = 7\<rparr>), \<lparr>rows = [\<lparr>row_id = 1, row_name = ''Widget'', row_details = ''red'', row_created = 0, row_updated = 7\<rparr>], next_key = 2\<rparr>)"
    by (simp add: nat_to_decimal.simps char_of_eq_iff updateResource_def update_write_def update_data_def db_find_unique_def db_update_def check_key_def is_int32_def int32_max_def lookup_row_def apply_update_def js_text_defs)
  show ?thesis using inv mem u update_fields [OF inv mem u] by simp
qed

lemma create_succeeds_iff:
  "(\<exists>res t'. createResource t input now = Inr (res, t')) \<longleftrightarrow>
     next_key t \<le> int32_max \<and>
     (in_details input = JUndefined \<or> in_details input = JNull \<or> (\<exists>s. in_details input = JString s))"
  by (cases "in_details input")
     (auto simp: createResource_def db_create_def string_arg_def nullish_default_def Let_def not_less)

text \<open>C13: Create succeeds exactly when the sequence has room and \<open>details\<close> is a string, absent or null; then the new resource's id is the sequence's next value, its name is the given one, its details the given string or \<open>''''\<close> when absent or null, its two timestamps are equal, and the sequence advances by one.\<close>

theorem create_fields:
  "((\<exists>res t'. createResource t input now = Inr (res, t')) \<longleftrightarrow>
      next_key t \<le> int32_max \<and>
      (in_details input = JUndefined \<or> in_details input = JNull \<or> (\<exists>s. in_details input = JString s))) \<and>
   (createResource t input now = Inr (res, t') \<longrightarrow>
      res_id res = js_string_of_int (next_key t) \<and> res_name res = in_name input \<and>
      res_details res = (case in_details input of
                           JUndefined \<Rightarrow> '''' | JNull \<Rightarrow> '''' | JString s \<Rightarrow> s | _ \<Rightarrow> res_details res) \<and>
      res_created_at res = res_updated_at res \<and> next_key t' = next_key t + 1)"
proof (rule conjI [OF create_succeeds_iff], rule impI)
  assume a: "createResource t input now = Inr (res, t')"
  obtain r where c: "db_create t (JString (in_name input)) (nullish_default (in_details input) '''') now = Inr (r, t')"
    and res: "res = mapResource r"
    using createResource_Inr [OF a] by blast
  from db_create_Inr [OF c] have "row_id r = next_key t \<and> next_key t' = next_key t + 1 \<and>
      row_created r = now \<and> row_updated r = now \<and> in_name input = row_name r \<and>
      nullish_default (in_details input) '''' = JString (row_details r)"
    by simp
  then show "res_id res = js_string_of_int (next_key t) \<and> res_name res = in_name input \<and>
      res_details res = (case in_details input of
                           JUndefined \<Rightarrow> '''' | JNull \<Rightarrow> '''' | JString s \<Rightarrow> s | _ \<Rightarrow> res_details res) \<and>
      res_created_at res = res_updated_at res \<and> next_key t' = next_key t + 1"
    by (auto simp: res mapResource_def nullish_default_def split: jval.splits)
qed

theorem create_fields_witness:
  "createResource empty_table \<lparr>in_name = ''Widget'', in_details = JUndefined\<rparr> 0 =
     Inr (mapResource \<lparr>row_id = 1, row_name = ''Widget'', row_details = '''', row_created = 0, row_updated = 0\<rparr>,
          \<lparr>rows = [\<lparr>row_id = 1, row_name = ''Widget'', row_details = '''', row_created = 0, row_updated = 0\<rparr>], next_key = 2\<rparr>) \<and>
   res_details (mapResource \<lparr>row_id = 1, row_name = ''Widget'', row_details = '''', row_created = 0, row_updated = 0\<rparr>) = '''' \<and>
   \<not> (\<exists>res t'. createResource empty_table \<lparr>in_name = ''Widget'', in_details = JBool True\<rparr> 0 = Inr (res, t'))"
proof -
  have c: "createResource empty_table \<lparr>in_name = ''Widget'', in_details = JUndefined\<rparr> 0 =
     Inr (mapResource \<lparr>row_id = 1, row_name = ''Widget'', row_details = '''', row_created = 0, row_updated = 0\<rparr>,
          \<lparr>rows = [\<lparr>row_id = 1, row_name = ''Widget'', row_details = '''', row_created = 0, row_updated = 0\<rparr>], next_key = 2\<rparr>)"
    by (simp add: createResource_def db_create_def string_arg_def nullish_default_def empty_table_def int32_max_def Let_def)
  note f = create_fields [of empty_table "\<lparr>in_name = ''Widget'', in_details = JUndefined\<rparr>" 0
      "mapResource \<lparr>row_id = 1, row_name = ''Widget'', row_details = '''', row_created = 0, row_updated = 0\<rparr>"
      "\<lparr>rows = [\<lparr>row_id = 1, row_name = ''Widget'', row_details = '''', row_created = 0, row_updated = 0\<rparr>], next_key = 2\<rparr>"]
  note g = create_fields [of empty_table "\<lparr>in_name = ''Widget'', in_details = JBool True\<rparr>" 0]
  show ?thesis using c f g by simp
qed


section \<open>Refinement of the map specification\<close>

lemma resource_view_upd: "table_map t' = (table_map t)(k \<mapsto> r) \<Longrightarrow> resource_view t' = (resource_view t)(k \<mapsto> mapResource r)"
  by (simp add: resource_view_def fun_eq_iff)

lemma getResource_view:
  assumes "getResource t i = Inr x"
  shows "\<exists>k. js_parse_int i = Some k \<and> x = resource_view t k"
  using assms
  by (auto simp: getResource_def db_find_unique_def resource_view_def lookup_row_table_map
      dest: check_key_Inr split: sum.splits option.splits)

lemma createResource_view:
  assumes "table_inv t" and "createResource t input now = Inr (res, t')"
  shows "\<exists>k. res_id res = js_string_of_int k \<and> k \<notin> dom (resource_view t) \<and>
             resource_view t' = (resource_view t)(k \<mapsto> res)"
proof -
  obtain r where c: "db_create t (JString (in_name input)) (nullish_default (in_details input) '''') now = Inr (r, t')"
    and res: "res = mapResource r"
    using createResource_Inr [OF assms(2)] by blast
  from db_create_table_map [OF assms(1) c]
  have fresh: "row_id r \<notin> dom (table_map t)" and m: "table_map t' = (table_map t)(row_id r \<mapsto> r)" by simp_all
  from m have "resource_view t' = (resource_view t)(row_id r \<mapsto> res)" unfolding res by (rule resource_view_upd)
  moreover from fresh have "row_id r \<notin> dom (resource_view t)" by (simp add: resource_view_def dom_def)
  moreover have "res_id res = js_string_of_int (row_id r)" by (simp add: res mapResource_def)
  ultimately show ?thesis by blast
qed

lemma updateResource_view:
  assumes "updateResource t i p now = Inr (Some res, t')"
  shows "\<exists>k. js_parse_int i = Some k \<and> k \<in> dom (resource_view t) \<and>
             resource_view t' = (resource_view t)(k \<mapsto> res)"
proof -
  obtain r' where u: "db_update t (js_parse_int i) (fst (update_data p)) (snd (update_data p)) now = Inr (r', t')"
    and res: "res = mapResource r'"
    using assms by (auto simp: updateResource_def update_write_def split: sum.splits option.splits prod.splits)
  from db_update_table_map [OF u] obtain k r where "js_parse_int i = Some k" "table_map t k = Some r"
    "r' = apply_update (fst (update_data p)) (snd (update_data p)) now r"
    "table_map t' = (table_map t)(k \<mapsto> apply_update (fst (update_data p)) (snd (update_data p)) now r)"
    by blast
  then show ?thesis
    by (intro exI [of _ k]) (auto simp: res resource_view_upd resource_view_def)
qed

lemma deleteResource_view:
  assumes "deleteResource t i = (Some res, t')"
  shows "\<exists>k. js_parse_int i = Some k \<and> resource_view t k = Some res \<and>
             resource_view t' = (resource_view t)(k := None)"
proof -
  obtain r where d: "db_delete t (js_parse_int i) = Inr (r, t')" and res: "res = mapResource r"
    using assms by (auto simp: deleteResource_def split: sum.splits)
  from db_delete_table_map [OF d] obtain k where
    "js_parse_int i = Some k" "table_map t k = Some r" "table_map t' = (table_map t)(k := None)"
    by blast
  then show ?thesis
    by (intro exI [of _ k]) (simp add: res resource_view_def fun_eq_iff)
qed

lemma updateResource_None: "updateResource t i p now = Inr (None, t') \<Longrightarrow> t' = t"
  by (auto simp: updateResource_def update_write_def split: sum.splits option.splits prod.splits)

lemma deleteResource_None: "deleteResource t i = (None, t') \<Longrightarrow> t' = t"
  by (auto simp: deleteResource_def split: sum.splits)

text \<open>C3: Refinement of the map specification: in a table satisfying the invariant, \<open>getResource\<close> is the lookup of the parsed key in the abstract view, \<open>createResource\<close> inserts the returned resource under a fresh key that its id encodes, a successful \<open>updateResource\<close> overwrites the entry of the parsed key with the returned resource, a successful \<open>deleteResource\<close> removes the entry it returns, and an update or delete answering \<open>null\<close> leaves the table unchanged.\<close>

theorem store_refines_map:
  assumes "table_inv t"
  shows "(getResource t i = Inr x \<longrightarrow> (\<exists>k. js_parse_int i = Some k \<and> x = resource_view t k)) \<and>
    (createResource t input now = Inr (res, t') \<longrightarrow>
       (\<exists>k. res_id res = js_string_of_int k \<and> k \<notin> dom (resource_view t) \<and>
            resource_view t' = (resource_view t)(k \<mapsto> res))) \<and>
    (updateResource t i p now = Inr (Some res, t') \<longrightarrow>
       (\<exists>k. js_parse_int i = Some k \<and> k \<in> dom (resource_view t) \<and>
            resource_view t' = (resource_view t)(k \<mapsto> res))) \<and>
    (updateResource t i p now = Inr (None, t') \<longrightarrow> t' = t) \<and>
    (deleteResource t i = (Some res, t') \<longrightarrow>
       (\<exists>k. js_parse_int i = Some k \<and> resource_view t k = Some res \<and>
            resource_view t' = (resource_view t)(k := None))) \<and>
    (deleteResource t i = (None, t') \<longrightarrow> t' = t)"
  by (intro conjI impI)
     (erule getResource_view createResource_view [OF assms] updateResource_view updateResource_None
        deleteResource_view deleteResource_None)+

theorem store_refines_map_witness:
  "table_inv \<lparr>rows = [\<lparr>row_id = 1, row_name = ''Widget'', row_details = ''blue'', row_created = 0, row_updated = 0\<rparr>], next_key = 2\<rparr> \<and>
   deleteResource \<lparr>rows = [\<lparr>row_id = 1, row_name = ''Widget'', row_details = ''blue'', row_created = 0, row_updated = 0\<rparr>], next_key = 2\<rparr> ''1'' =
     (Some (mapResource \<lparr>row_id = 1, row_name = ''Widget'', row_details = ''blue'', row_created = 0, row_updated = 0\<rparr>), \<lparr>rows = [], next_key = 2\<rparr>) \<and>
   resource_view \<lparr>rows = [\<lparr>row_id = 1, row_name = ''Widget'', row_details = ''blue'', row_created = 0, row_updated = 0\<rparr>], next_key = 2\<rparr> 1 =
     Some (mapResource \<lparr>row_id = 1, row_name = ''Widget'', row_details = ''blue'', row_created = 0, row_updated = 0\<rparr>) \<and>
   resource_view \<lparr>rows = [], next_key = 2\<rparr> =
     (resource_view \<lparr>rows = [\<lparr>row_id = 1, row_name = ''Widget'', row_details = ''blue'', row_created = 0, row_updated = 0\<rparr>], next_key = 2\<rparr>)(1 := None)"
proof -
  have inv: "table_inv \<lparr>rows = [\<lparr>row_id = 1, row_name = ''Widget'', row_details = ''blue'', row_created = 0, row_updated = 0\<rparr>], next_key = 2\<rparr>"
    by (simp add: table_inv_def keys_def int32_max_def)
  have d: "deleteResource \<lparr>rows = [\<lparr>row_id = 1, row_name = ''Widget'', row_details = ''blue'', row_created = 0, row_updated = 0\<rparr>], next_key = 2\<rparr> ''1'' =
     (Some (mapResource \<lparr>row_id = 1, row_name = ''Widget'', row_details = ''blue'', row_created = 0, row_updated = 0\<rparr>), \<lparr>rows = [], next_key = 2\<rparr>)"
    by (simp add: deleteResource_def db_delete_def check_key_def is_int32_def int32_max_def lookup_row_def js_text_defs)
  have p: "js_parse_int ''1'' = Some 1" by (simp add: js_text_defs)
  from store_refines_map [OF inv, of "''1''" _ _ _ "mapResource \<lparr>row_id = 1, row_name = ''Widget'', row_details = ''blue'', row_created = 0, row_updated = 0\<rparr>" "\<lparr>rows = [], next_key = 2\<rparr>"] d p
  have "resource_view \<lparr>rows = [\<lparr>row_id = 1, row_name = ''Widget'', row_details = ''blue'', row_created = 0, row_updated = 0\<rparr>], next_key = 2\<rparr> 1 =
     Some (mapResource \<lparr>row_id = 1, row_name = ''Widget'', row_details = ''blue'', row_created = 0, row_updated = 0\<rparr>) \<and>
   resource_view \<lparr>rows = [], next_key = 2\<rparr> =
     (resource_view \<lparr>rows = [\<lparr>row_id = 1, row_name = ''Widget'', row_details = ''blue'', row_created = 0, row_updated = 0\<rparr>], next_key = 2\<rparr>)(1 := None)"
    by auto
  with inv d show ?thesis by blast
qed

end
