(* ===== verification/Routes.thy ===== *)
theory Routes
  imports Persistence
begin

text \<open>
  The Express routes of \<open>src/problem5/src/index.ts\<close>. Each handler is a
  function of the table (and, for writes, of the time \<open>now\<close>) that returns
  the handler's outcome and the new table: a response with its status code,
  or \<open>Unhandled\<close> when the awaited persistence call throws (an \<open>async\<close>
  handler under Express 4 does not catch it: no response is sent and the
  promise rejection is unhandled). \<open>serve\<close> dispatches a request to its
  handler; \<open>reachable\<close> is the set of (table, clock) pairs a server reaches
  from the empty table by requests whose times do not go backwards.
\<close>

section \<open>Requests and responses\<close>

text \<open>The JSON body after \<open>express.json()\<close>: the two fields the handlers
  read (\<open>undefined\<close> when absent, also for a non-object body).\<close>

record req_body =
  body_name :: jval
  body_details :: jval

datatype reply =
    ErrorReply string
  | ResourceReply resource
  | PageReply nat int int "resource list"  \<comment> \<open>\<open>{total, limit, offset, items}\<close>\<close>
  | TextReply string

datatype outcome = Respond nat reply | Unhandled db_error

datatype request =
    PostResources req_body
  | GetResources "string option" "string option" "string option"  \<comment> \<open>\<open>q\<close>, \<open>limit\<close>, \<open>offset\<close>\<close>
  | GetResource string
  | PutResource string req_body
  | DeleteResource string
  | GetRoot

definition not_found :: reply where
  "not_found = ErrorReply ''Not found''"

section \<open>Handlers\<close>

text \<open>\<open>POST /resources\<close> (lines 10--17): a name that is not a string or is blank
  is a 400; otherwise the trimmed name and \<open>details ?? ''\<close> are created.\<close>

definition post_resources :: "table \<Rightarrow> req_body \<Rightarrow> timestamp \<Rightarrow> outcome \<times> table" where
  "post_resources t b now =
     (case body_name b of
        JString s \<Rightarrow>
          if js_trim s = [] then (Respond 400 (ErrorReply ''name is required''), t)
          else
            (case createResource t \<lparr>in_name = js_trim s, in_details = nullish_default (body_details b) ''''\<rparr> now of
               Inl e \<Rightarrow> (Unhandled e, t)
             | Inr (r, t') \<Rightarrow> (Respond 201 (ResourceReply r), t'))
      | _ \<Rightarrow> (Respond 400 (ErrorReply ''name is required''), t))"

text \<open>\<open>parseInt(s, 10) || d\<close>: \<open>NaN\<close> and 0 are both falsy.\<close>

definition js_or :: "int option \<Rightarrow> int \<Rightarrow> int" where
  "js_or v d = (case v of None \<Rightarrow> d | Some x \<Rightarrow> if x = 0 then d else x)"

text \<open>A query parameter with a destructuring default (\<open>limit = '20'\<close>).\<close>

definition query_default :: "string option \<Rightarrow> string \<Rightarrow> string" where
  "query_default v d = (case v of None \<Rightarrow> d | Some s \<Rightarrow> s)"

definition list_offset :: "string option \<Rightarrow> int" where
  "list_offset offset = max 0 (js_or (js_parse_int (query_default offset ''0'')) 0)"

definition list_limit :: "string option \<Rightarrow> int" where
  "list_limit limit = min 100 (max 1 (js_or (js_parse_int (query_default limit ''20'')) 20))"

text \<open>\<open>GET /resources\<close> (lines 20--26).\<close>

definition get_resources :: "table \<Rightarrow> string option \<Rightarrow> string option \<Rightarrow> string option \<Rightarrow> outcome" where
  "get_resources t q limit offset =
     (let off = list_offset offset;
          lim = list_limit limit;
          result = listResources t q (nat lim) (nat off)
      in Respond 200 (PageReply (total result) lim off (items result)))"

text \<open>\<open>GET /resources/:id\<close> (lines 29--33).\<close>

definition get_resource :: "table \<Rightarrow> string \<Rightarrow> outcome" where
  "get_resource t i =
     (case getResource t i of
        Inl e \<Rightarrow> Unhandled e
      | Inr None \<Rightarrow> Respond 404 not_found
      | Inr (Some r) \<Rightarrow> Respond 200 (ResourceReply r))"

text \<open>\<open>PUT /resources/:id\<close> (lines 36--41).\<close>

definition put_resource :: "table \<Rightarrow> string \<Rightarrow> req_body \<Rightarrow> timestamp \<Rightarrow> outcome \<times> table" where
  "put_resource t i b now =
     (case updateResource t i \<lparr>upd_name = body_name b, upd_details = body_details b\<rparr> now of
        Inl e \<Rightarrow> (Unhandled e, t)
      | Inr (None, t') \<Rightarrow> (Respond 404 not_found, t')
      | Inr (Some r, t') \<Rightarrow> (Respond 200 (ResourceReply r), t'))"

text \<open>\<open>DELETE /resources/:id\<close> (lines 44--48).\<close>

definition delete_resource :: "table \<Rightarrow> string \<Rightarrow> outcome \<times> table" where
  "delete_resource t i =
     (case deleteResource t i of
        (None, t') \<Rightarrow> (Respond 404 not_found, t')
      | (Some r, t') \<Rightarrow> (Respond 200 (ResourceReply r), t'))"

text \<open>\<open>GET /\<close> (lines 50--52).\<close>

definition get_root :: outcome where
  "get_root = Respond 200 (TextReply ''Problem 5 CRUD Server is running'')"

fun serve :: "table \<Rightarrow> timestamp \<Rightarrow> request \<Rightarrow> outcome \<times> table" where
  "serve t now (PostResources b) = post_resources t b now"
| "serve t now (GetResources q l off) = (get_resources t q l off, t)"
| "serve t now (GetResource i) = (get_resource t i, t)"
| "serve t now (PutResource i b) = put_resource t i b now"
| "serve t now (DeleteResource i) = delete_resource t i"
| "serve t now GetRoot = (get_root, t)"

text \<open>A run of timed requests, served one after the other.\<close>

fun run :: "table \<Rightarrow> (timestamp \<times> request) list \<Rightarrow> outcome list \<times> table" where
  "run t [] = ([], t)"
| "run t ((now, req) # rs) =
     (let (o1, t1) = serve t now req; (os, t2) = run t1 rs in (o1 # os, t2))"

section \<open>Reachable states\<close>

text \<open>The server starts on the empty table once \<open>migrate\<close> has run
  (lines 55--64) and serves requests at non-decreasing times.\<close>

inductive reachable :: "table \<Rightarrow> timestamp \<Rightarrow> bool" where
  boot: "reachable (migrate empty_table) 0"
| step: "reachable t clk \<Longrightarrow> clk \<le> now \<Longrightarrow> serve t now req = (out, t') \<Longrightarrow> reachable t' now"

definition row_ok :: "timestamp \<Rightarrow> row \<Rightarrow> bool" where
  "row_ok clk r \<longleftrightarrow> js_trim (row_name r) \<noteq> [] \<and> row_created r \<le> row_updated r \<and> row_updated r \<le> clk"

definition server_inv :: "table \<Rightarrow> timestamp \<Rightarrow> bool" where
  "server_inv t clk \<longleftrightarrow> table_inv t \<and> (\<forall>r \<in> set (rows t). row_ok clk r)"

lemmas routes_defs [eval_simps] =
  not_found_def post_resources_def js_or_def query_default_def list_offset_def list_limit_def
  get_resources_def get_resource_def put_resource_def delete_resource_def get_root_def

section \<open>The invariant of reachable states\<close>

lemma row_ok_mono: "row_ok clk r \<Longrightarrow> clk \<le> now \<Longrightarrow> row_ok now r"
  by (auto simp: row_ok_def)

lemma server_inv_mono: "server_inv t clk \<Longrightarrow> clk \<le> now \<Longrightarrow> server_inv t now"
  by (auto simp: server_inv_def intro: row_ok_mono)

lemma update_data_name_ne: "fst (update_data p) = Some y \<Longrightarrow> js_trim y \<noteq> []"
  by (auto simp: update_data_def js_trim_trim_ne split: jval.splits if_splits)

lemma row_ok_apply_update:
  assumes "row_ok clk x" and "clk \<le> now" and "\<And>y. n = Some y \<Longrightarrow> js_trim y \<noteq> []"
  shows "row_ok now (apply_update n d now x)"
  using assms by (cases n) (auto simp: row_ok_def apply_update_def)

lemma updateResource_table:
  assumes "updateResource t i p now = Inr (ro, t')"
  shows "t' = t \<or>
    (\<exists>r'. db_update t (js_parse_int i) (fst (update_data p)) (snd (update_data p)) now = Inr (r', t'))"
  using assms
  by (auto simp: updateResource_def update_write_def split_def Let_def split: sum.splits option.splits)

lemma deleteResource_table:
  "deleteResource t i = (ro, t') \<Longrightarrow> t' = t \<or> (\<exists>r. db_delete t (js_parse_int i) = Inr (r, t'))"
  by (auto simp: deleteResource_def split: sum.splits)

lemma updateResource_inv:
  assumes "table_inv t" and "updateResource t i p now = Inr (ro, t')"
  shows "table_inv t'"
  using updateResource_table [OF assms(2)] assms(1) db_update_inv by blast

lemma post_resources_inv:
  assumes inv: "server_inv t clk" and le: "clk \<le> now" and p: "post_resources t b now = (out, t')"
  shows "server_inv t' now"
proof (cases "t' = t")
  case True
  with inv le show ?thesis by (simp add: server_inv_mono)
next
  case False
  with p obtain s res where s: "body_name b = JString s" "js_trim s \<noteq> []"
    and c: "createResource t \<lparr>in_name = js_trim s, in_details = nullish_default (body_details b) ''''\<rparr> now = Inr (res, t')"
    by (auto simp: post_resources_def split: jval.splits if_splits sum.splits)
  then obtain r where d: "db_create t (JString (js_trim s))
        (nullish_default (nullish_default (body_details b) '''') '''') now = Inr (r, t')"
    using createResource_Inr [OF c] by auto
  from db_create_Inr [OF d] have r: "rows t' = rows t @ [r]" "row_name r = js_trim s"
    "row_created r = now" "row_updated r = now" by auto
  from inv have "table_inv t" by (simp add: server_inv_def)
  then have "table_inv t'" using d by (rule db_create_inv)
  moreover have "row_ok now r" using r s by (simp add: row_ok_def js_trim_trim_ne)
  ultimately show ?thesis
    using inv le r by (auto simp: server_inv_def intro: row_ok_mono)
qed

lemma put_resource_inv:
  assumes inv: "server_inv t clk" and le: "clk \<le> now" and p: "put_resource t i b now = (out, t')"
  shows "server_inv t' now"
proof (cases "t' = t")
  case True
  with inv le show ?thesis by (simp add: server_inv_mono)
next
  case False
  let ?p = "\<lparr>upd_name = body_name b, upd_details = body_details b\<rparr>"
  from False p obtain ro where u: "updateResource t i ?p now = Inr (ro, t')"
    by (auto simp: put_resource_def split: sum.splits option.splits prod.splits)
  from u False obtain r' where
    "db_update t (js_parse_int i) (fst (update_data ?p)) (snd (update_data ?p)) now = Inr (r', t')"
    using updateResource_table by blast
  from db_update_Inr [OF this] obtain k where t': "t' = t\<lparr>rows := map (\<lambda>x. if row_id x = k
      then apply_update (fst (update_data ?p)) (snd (update_data ?p)) now x else x) (rows t)\<rparr>"
    by blast
  from inv have "table_inv t" by (simp add: server_inv_def)
  then have "table_inv t'" using u by (rule updateResource_inv)
  moreover have "\<forall>r \<in> set (rows t'). row_ok now r"
    using inv le update_data_name_ne
    by (auto simp: t' server_inv_def intro: row_ok_mono row_ok_apply_update)
  ultimately show ?thesis by (simp add: server_inv_def)
qed

lemma delete_resource_inv:
  assumes inv: "server_inv t clk" and le: "clk \<le> now" and p: "delete_resource t i = (out, t')"
  shows "server_inv t' now"
proof -
  from p obtain ro where d: "deleteResource t i = (ro, t')"
    by (auto simp: delete_resource_def split: prod.splits option.splits)
  show ?thesis
  proof (cases "t' = t")
    case True
    with inv le show ?thesis by (simp add: server_inv_mono)
  next
    case False
    with deleteResource_table [OF d] obtain r where dd: "db_delete t (js_parse_int i) = Inr (r, t')"
      by blast
    from db_delete_Inr [OF dd] obtain k where t': "t' = t\<lparr>rows := filter (\<lambda>x. row_id x \<noteq> k) (rows t)\<rparr>"
      by blast
    from inv have "table_inv t" by (simp add: server_inv_def)
    then have "table_inv t'" using dd by (rule db_delete_inv)
    with inv le show ?thesis by (auto simp: server_inv_def t' intro: row_ok_mono)
  qed
qed

lemma serve_inv:
  "server_inv t clk \<Longrightarrow> clk \<le> now \<Longrightarrow> serve t now req = (out, t') \<Longrightarrow> server_inv t' now"
  by (cases req) (auto intro: server_inv_mono post_resources_inv put_resource_inv delete_resource_inv)

lemma reachable_server_inv: "reachable t clk \<Longrightarrow> server_inv t clk"
proof (induction rule: reachable.induct)
  case boot
  show ?case using table_inv_empty by (simp add: server_inv_def migrate_def empty_table_def)
next
  case (step t clk now req out t')
  then show ?case by (blast intro: serve_inv)
qed

text \<open>C2: The invariants of the data model hold in every reachable state: the
  stored keys are distinct (one record per id), every stored name is
  non-blank, and every record has \<open>createdAt \<le> updatedAt\<close>, neither later
  than the last request.\<close>

theorem reachable_invariants:
  assumes "reachable t clk"
  shows "distinct (keys t) \<and>
    (\<forall>r \<in> set (rows t). js_trim (row_name r) \<noteq> [] \<and> row_created r \<le> row_updated r \<and> row_updated r \<le> clk)"
proof -
  from assms have "server_inv t clk" by (rule reachable_server_inv)
  then show ?thesis
    by (auto simp: server_inv_def table_inv_def row_ok_def sorted_wrt_less_distinct)
qed

theorem reachable_invariants_witness:
  "reachable (snd (serve (migrate empty_table) 5 (PostResources \<lparr>body_name = JString ''Widget'', body_details = JString ''blue''\<rparr>))) 5 \<and> rows (snd (serve (migrate empty_table) 5 (PostResources \<lparr>body_name = JString ''Widget'', body_details = JString ''blue''\<rparr>))) = [\<lparr>row_id = 1, row_name = ''Widget'', row_details = ''blue'', row_created = 5, row_updated = 5\<rparr>] \<and> distinct (keys (snd (serve (migrate empty_table) 5 (PostResources \<lparr>body_name = JString ''Widget'', body_details = JString ''blue''\<rparr>)))) \<and>
   js_trim (row_name \<lparr>row_id = 1, row_name = ''Widget'', row_details = ''blue'', row_created = 5, row_updated = 5\<rparr>) \<noteq> [] \<and> row_created \<lparr>row_id = 1, row_name = ''Widget'', row_details = ''blue'', row_created = 5, row_updated = 5\<rparr> \<le> row_updated \<lparr>row_id = 1, row_name = ''Widget'', row_details = ''blue'', row_created = 5, row_updated = 5\<rparr>"
proof -
  have r: "reachable (snd (serve (migrate empty_table) 5 (PostResources \<lparr>body_name = JString ''Widget'', body_details = JString ''blue''\<rparr>))) 5"
    by (rule reachable.step [OF reachable.boot, of 5 "PostResources \<lparr>body_name = JString ''Widget'', body_details = JString ''blue''\<rparr>"
          "fst (serve (migrate empty_table) 5 (PostResources \<lparr>body_name = JString ''Widget'', body_details = JString ''blue''\<rparr>))"]) simp_all
  have rows: "rows (snd (serve (migrate empty_table) 5 (PostResources \<lparr>body_name = JString ''Widget'', body_details = JString ''blue''\<rparr>))) = [\<lparr>row_id = 1, row_name = ''Widget'', row_details = ''blue'', row_created = 5, row_updated = 5\<rparr>]"
    by (simp add: routes_defs createResource_def db_create_def string_arg_def nullish_default_def
        migrate_def empty_table_def int32_max_def Let_def js_text_defs)
  show ?thesis using r rows reachable_invariants [OF r] by simp
qed

section \<open>Handler properties\<close>

text \<open>The clamping of \<open>limit\<close> on sample inputs: \<open>limit=0\<close> does not
  behave as \<open>limit=1\<close>: \<open>parseInt('0') || 20\<close> is 20, because 0 is falsy;
  \<open>limit=-3\<close> is 1, \<open>limit=1000\<close> is 100, a non-numeric limit is 20, and
  \<open>offset=-5\<close> is 0.\<close>

theorem limit_clamp_samples:
  "list_limit (Some ''0'') = 20 \<and> list_limit (Some ''-3'') = 1 \<and>
   list_limit (Some ''1000'') = 100 \<and> list_limit (Some ''abc'') = 20 \<and>
   list_limit None = 20 \<and> list_offset (Some ''-5'') = 0"
  by (simp add: list_limit_def list_offset_def js_or_def query_default_def js_text_defs)

text \<open>C10: \<open>POST /resources\<close> with a \<open>name\<close> that is not a string or is blank
  answers 400 and leaves the table unchanged.\<close>

theorem post_rejects_bad_name:
  assumes "(\<forall>s. body_name b \<noteq> JString s) \<or> (\<exists>s. body_name b = JString s \<and> js_trim s = [])"
  shows "post_resources t b now = (Respond 400 (ErrorReply ''name is required''), t)"
  using assms by (auto simp: post_resources_def split: jval.splits)

theorem post_rejects_bad_name_witness:
  "((\<forall>s. body_name \<lparr>body_name = JString '' '', body_details = JUndefined\<rparr> \<noteq> JString s) \<or>
    (\<exists>s. body_name \<lparr>body_name = JString '' '', body_details = JUndefined\<rparr> = JString s \<and> js_trim s = [])) \<and>
   post_resources empty_table \<lparr>body_name = JString '' '', body_details = JUndefined\<rparr> 3 =
     (Respond 400 (ErrorReply ''name is required''), empty_table)"
proof -
  have h: "(\<forall>s. body_name \<lparr>body_name = JString '' '', body_details = JUndefined\<rparr> \<noteq> JString s) \<or>
    (\<exists>s. body_name \<lparr>body_name = JString '' '', body_details = JUndefined\<rparr> = JString s \<and> js_trim s = [])"
    by (simp add: js_text_defs)
  show ?thesis using h post_rejects_bad_name [OF h, of empty_table 3] by simp
qed


end
