(* ===== verification/SumToN.thy ===== *)
theory SumToN
  imports Complex_Main
begin

text \<open>
  The summation exercise of \<open>src/problem4/index.ts\<close>: three functions meant
  to compute \<open>1 + 2 + ... + n\<close>. A JavaScript number is modelled as a
  \<open>real\<close> with exact arithmetic (the doc comment bounds the results below
  \<open>Number.MAX_SAFE_INTEGER\<close>, where integer arithmetic on doubles is exact;
  rounding of fractional values is not modelled). Each loop is a recursive
  function of its loop variables whose termination is proved by a measure
  (the ceiling of the distance still to go). The theory proves what each
  function computes on every integer and where they disagree: below -1 and on
  fractional inputs, which the functions accept unchecked (\<open>run.ts\<close> passes
  \<open>Number(process.argv[2])\<close>).
\<close>

text \<open>\<open>sum_to_n_a\<close> (lines 10--16): \<open>for (let i = 1; i <= n; i += 1) total += i\<close>.
  (\<open>total\<close> is a HOL constant, so the accumulator is \<open>tot\<close> here.)\<close>

function sum_a_loop :: "real \<Rightarrow> real \<Rightarrow> real \<Rightarrow> real" where
  "sum_a_loop n i tot = (if i \<le> n then sum_a_loop n (i + 1) (tot + i) else tot)"
  by pat_completeness auto
termination
  by (relation "measure (\<lambda>(n, i, tot). nat \<lceil>n - i + 1\<rceil>)") (auto simp: diff_diff_eq [symmetric])

definition sum_to_n_a :: "real \<Rightarrow> real" where
  "sum_to_n_a n = sum_a_loop n 1 0"

text \<open>\<open>sum_to_n_b\<close> (lines 22--24): the Gauss formula with JavaScript's
  real division.\<close>

definition sum_to_n_b :: "real \<Rightarrow> real" where
  "sum_to_n_b n = (n * (n + 1)) / 2"

text \<open>\<open>sum_to_n_c\<close> (lines 31--47): two pointers moving towards each other,
  then the middle term when they meet.\<close>

function sum_c_loop :: "real \<Rightarrow> real \<Rightarrow> real \<Rightarrow> real \<times> real \<times> real" where
  "sum_c_loop left right tot =
     (if left < right then sum_c_loop (left + 1) (right - 1) (tot + (left + right))
      else (left, right, tot))"
  by pat_completeness auto
termination
  by (relation "measure (\<lambda>(left, right, tot). nat \<lceil>right - left\<rceil>)") auto

definition sum_to_n_c :: "real \<Rightarrow> real" where
  "sum_to_n_c n = (case sum_c_loop 1 n 0 of (left, right, tot) \<Rightarrow> if left = right then tot + left else tot)"

declare sum_a_loop.simps [simp del] sum_c_loop.simps [simp del]

lemma sum_Icc_int_lower:
  "j \<le> m \<Longrightarrow> (\<Sum>{j..m} :: int) = j + \<Sum>{j + 1..m}"
proof -
  assume "j \<le> m"
  then have "{j..m} = insert j {j + 1..m}" by auto
  then show ?thesis by simp
qed

lemma sum_Icc_int_both:
  "j < m \<Longrightarrow> (\<Sum>{j..m} :: int) = j + m + \<Sum>{j + 1..m - 1}"
proof -
  assume "j < m"
  then have "{j..m} = insert j (insert m {j + 1..m - 1})" by auto
  with \<open>j < m\<close> show ?thesis by simp
qed

lemma sum_a_loop_int:
  "i = of_int j \<Longrightarrow> sum_a_loop n i t = t + of_int (\<Sum>{j..\<lfloor>n\<rfloor>})"
proof (induction n i t arbitrary: j rule: sum_a_loop.induct)
  case (1 n i t)
  show ?case
  proof (cases "i \<le> n")
    case True
    have u: "sum_a_loop n i t = sum_a_loop n (i + 1) (t + i)"
      using True by (simp add: sum_a_loop.simps [of n i t])
    from True "1.prems" have j: "j \<le> \<lfloor>n\<rfloor>" by (simp add: le_floor_iff)
    from True "1.prems" have "sum_a_loop n (i + 1) (t + i) = t + i + of_int (\<Sum>{j + 1..\<lfloor>n\<rfloor>})"
      using "1.IH" [of "j + 1"] by simp
    with u j "1.prems" show ?thesis
      by (simp add: sum_Icc_int_lower)
  next
    case False
    with "1.prems" have "\<lfloor>n\<rfloor> < j" by (simp add: floor_less_iff)
    with False show ?thesis by (simp add: sum_a_loop.simps [of n i t])
  qed
qed

lemma double_sum_1_to:
  "2 * (\<Sum>{1..int m}) = int m * (int m + 1)"
proof (induction m)
  case 0
  then show ?case by simp
next
  case (Suc m)
  have "{1..int (Suc m)} = insert (int (Suc m)) {1..int m}" by auto
  then have "\<Sum>{1..int (Suc m)} = int (Suc m) + \<Sum>{1..int m}" by simp
  with Suc show ?case by (simp add: algebra_simps)
qed

lemma sum_c_loop_int:
  "left = of_int a \<Longrightarrow> right = of_int b \<Longrightarrow> a \<le> b + 1 \<Longrightarrow>
   (case sum_c_loop left right t of (l, r, s) \<Rightarrow> if l = r then s + l else s) = t + of_int (\<Sum>{a..b})"
proof (induction left right t arbitrary: a b rule: sum_c_loop.induct)
  case (1 left right t)
  show ?case
  proof (cases "left < right")
    case True
    have u: "sum_c_loop left right t = sum_c_loop (left + 1) (right - 1) (t + (left + right))"
      using True by (simp add: sum_c_loop.simps [of left right t])
    from True "1.prems" have ab: "a < b" by simp
    have "(case sum_c_loop (left + 1) (right - 1) (t + (left + right)) of (l, r, s) \<Rightarrow> if l = r then s + l else s)
          = t + (left + right) + of_int (\<Sum>{a + 1..b - 1})"
      using "1.IH" [of "a + 1" "b - 1"] True "1.prems" ab by simp
    with u ab "1.prems" show ?thesis
      by (simp add: sum_Icc_int_both)
  next
    case False
    have u: "sum_c_loop left right t = (left, right, t)"
      using False by (simp add: sum_c_loop.simps [of left right t])
    from False "1.prems" have "a = b \<or> a = b + 1" by linarith
    with u "1.prems" show ?thesis by auto
  qed
qed

text \<open>C16: \<open>sum_to_n_a\<close> sums the integers from 1 to \<open>\<lfloor>n\<rfloor>\<close> for every
  number \<open>n\<close>: a fractional \<open>n\<close> is rounded down, and for \<open>n < 1\<close> the loop
  does not run and the result is 0.\<close>

theorem sum_a_floor: "sum_to_n_a n = of_int (\<Sum>{1..\<lfloor>n\<rfloor>})"
  using sum_a_loop_int [of 1 1 n 0] by (simp add: sum_to_n_a_def)

lemma sum_to_n_a_int: "sum_to_n_a (of_int k) = of_int (\<Sum>{1..k})"
  using sum_a_loop_int [of 1 1 "of_int k" 0] by (simp add: sum_to_n_a_def)

text \<open>C17: The two-pointer \<open>sum_to_n_c\<close> computes the same value as the
  iterative \<open>sum_to_n_a\<close> on every integer, negative ones included.\<close>

theorem sum_c_eq_a: "sum_to_n_c (of_int k) = sum_to_n_a (of_int k)"
proof (cases "0 \<le> k")
  case True
  then have "sum_to_n_c (of_int k) = 0 + of_int (\<Sum>{1..k})"
    unfolding sum_to_n_c_def by (intro sum_c_loop_int) simp_all
  then show ?thesis by (simp add: sum_to_n_a_int)
next
  case False
  then have "sum_c_loop 1 (of_int k) 0 = (1, of_int k, 0)"
    by (simp add: sum_c_loop.simps)
  with False show ?thesis by (simp add: sum_to_n_c_def sum_to_n_a_int)
qed

text \<open>C18: The closed form \<open>sum_to_n_b\<close> agrees with \<open>sum_to_n_a\<close> on every
  integer \<open>n \<ge> -1\<close>, the range the doc comment assumes (non-negative
  integers) and one more.\<close>

theorem sum_b_eq_a:
  assumes "-1 \<le> k"
  shows "sum_to_n_b (of_int k) = sum_to_n_a (of_int k)"
proof (cases "k = -1")
  case True
  then show ?thesis using sum_to_n_a_int [of "-1"] by (simp add: sum_to_n_b_def)
next
  case False
  with assms have "0 \<le> k" by simp
  then obtain m where k: "k = int m" using nonneg_int_cases by blast
  have "(of_int (2 * \<Sum>{1..k}) :: real) = of_int (k * (k + 1))"
    unfolding k by (simp only: double_sum_1_to)
  then have d: "2 * of_int (\<Sum>{1..k}) = (of_int k * (of_int k + 1) :: real)"
    by simp
  have a: "sum_to_n_a (of_int k) = of_int (\<Sum>{1..k})" by (rule sum_to_n_a_int)
  show ?thesis unfolding a sum_to_n_b_def using d by simp
qed

theorem sum_b_eq_a_witness:
  "-1 \<le> (3::int) \<and> sum_to_n_b (of_int 3) = sum_to_n_a (of_int 3)"
proof -
  have h: "-1 \<le> (3::int)" by simp
  show ?thesis using h sum_b_eq_a [OF h] by simp
qed

text \<open>C19: Below -1 the three functions disagree: the loops of \<open>sum_to_n_a\<close>
  and \<open>sum_to_n_c\<close> do not run and return 0, while the closed form
  \<open>sum_to_n_b\<close> returns \<open>n(n+1)/2 > 0\<close>.\<close>

theorem sum_negative_divergence:
  assumes "k \<le> -2"
  shows "sum_to_n_a (of_int k) = 0 \<and> sum_to_n_c (of_int k) = 0 \<and> 0 < sum_to_n_b (of_int k)"
proof -
  have a: "sum_to_n_a (of_int k) = 0" using assms by (simp add: sum_to_n_a_int)
  have "sum_c_loop 1 (of_int k) 0 = (1, of_int k, 0)"
    using assms by (simp add: sum_c_loop.simps)
  then have c: "sum_to_n_c (of_int k) = 0" using assms by (simp add: sum_to_n_c_def)
  have "(0::real) < of_int k * (of_int k + 1)"
    using assms by (simp add: mult_neg_neg)
  then have b: "0 < sum_to_n_b (of_int k)" by (simp add: sum_to_n_b_def)
  from a b c show ?thesis by simp
qed

theorem sum_negative_divergence_witness:
  "(-3::int) \<le> -2 \<and> sum_to_n_a (of_int (-3)) = 0 \<and> sum_to_n_c (of_int (-3)) = 0 \<and>
   0 < sum_to_n_b (of_int (-3))"
proof -
  have h: "(-3::int) \<le> -2" by simp
  show ?thesis using h sum_negative_divergence [OF h] by simp
qed

text \<open>On a fractional input the three functions give three different
  results: for \<open>n = 2.5\<close>, \<open>sum_to_n_a\<close> gives 3, \<open>sum_to_n_b\<close> gives
  4.375 and \<open>sum_to_n_c\<close> gives 3.5.\<close>

theorem sum_fractional_samples:
  "sum_to_n_a (5 / 2) = 3 \<and> sum_to_n_b (5 / 2) = 35 / 8 \<and> sum_to_n_c (5 / 2) = 7 / 2"
  by (simp add: sum_to_n_a_def sum_a_loop.simps sum_to_n_b_def sum_to_n_c_def sum_c_loop.simps)

end
