(* ===== verification/Spec2Isabelle.thy ===== *)
theory Spec2Isabelle
  imports Routes SumToN
begin

text \<open>
  \<^bold>\<open>A verification development of the resource service of
  \<open>src/problem5\<close> and the summation exercise of \<open>src/problem4\<close>.\<close>

  \<^bold>\<open>The program.\<close> \<open>src/problem5/src/index.ts\<close> is an Express server with
  five routes over one kind of record; each route calls one function of
  \<open>src/problem5/src/persistence.ts\<close>, which talks to a PostgreSQL table through
  the Prisma client (the schema file is not among the sources; the
  \<open>mode: 'insensitive'\<close> filter exists on PostgreSQL only, so the key is a
  32-bit SERIAL). The functions decode the external id with
  \<open>parseInt(id, 10)\<close>, encode the key with \<open>String\<close>, and map every row to the
  external \<open>Resource\<close> with ISO-8601 timestamps. \<open>src/problem4/index.ts\<close>
  sums \<open>1..n\<close> in three ways; \<open>run.ts\<close> only prints them.

  \<^bold>\<open>Theories and what they model.\<close>
  \<^item> \<open>Prelude\<close>: fact collections (\<open>eval_simps\<close>: equations that evaluate the
    model on concrete inputs), the type names \<open>key\<close> and \<open>timestamp\<close>, list
    and character lemmas shared by the components.
  \<^item> \<open>JsText\<close>: the JavaScript built-ins the code calls: \<open>trim\<close>
    (\<open>js_trim\<close>), \<open>parseInt(_, 10)\<close> (\<open>js_parse_int\<close>, \<open>None\<close> for
    \<open>NaN\<close>), \<open>String\<close> on integers (\<open>js_string_of_int\<close>) and the case
    folding of the database's \<open>contains\<close>. This is the identifier codec.
  \<^item> \<open>IsoDate\<close>: \<open>Date.prototype.toISOString\<close> (\<open>to_iso_string\<close>) on
    millisecond timestamps, by the civil-from-days calendar algorithm.
  \<^item> \<open>Store\<close>: the table behind the Prisma client: its rows in key order
    and the sequence's next value (\<open>table\<close>), and the six client calls the
    code makes (\<open>db_create\<close>, \<open>db_find_unique\<close>, \<open>db_find_many\<close>,
    \<open>db_count\<close>, \<open>db_update\<close>, \<open>db_delete\<close>), each returning
    \<open>db_error + _\<close> as the client throws: a validation error for a key that is
    \<open>NaN\<close> or outside 32 bits or a field of the wrong type, \<open>P2025\<close> for a
    missing row, exhaustion of the sequence. \<open>table_inv\<close> (keys strictly
    ascending, positive, below the sequence, which stays within 32 bits) is kept
    by every call; \<open>table_map\<close> abstracts the table to a finite map, and the
    writing calls are map insert, update and removal on it (helper lemmas of
    the refinement proved in \<open>Persistence\<close>).
  \<^item> \<open>Persistence\<close>: \<open>persistence.ts\<close> function by function:
    \<open>mapResource\<close>, \<open>createResource\<close>, \<open>listResources\<close> (with the filter
    \<open>build_where\<close>), \<open>getResource\<close>, \<open>updateResource\<close> (its two client calls,
    \<open>findUnique\<close> then \<open>update_write\<close>, with the field normaliser
    \<open>update_data\<close>), \<open>deleteResource\<close> (which swallows every error) and the
    no-op \<open>migrate\<close>.
  \<^item> \<open>Routes\<close>: \<open>index.ts\<close>: one function per handler returning its status
    code and body, or \<open>Unhandled\<close> when the awaited call throws (the
    \<open>async\<close> handlers do not catch); the \<open>limit\<close>/\<open>offset\<close> parsing with
    JavaScript's \<open>||\<close>; \<open>serve\<close> dispatches a request, \<open>run\<close> serves a
    list of timed requests, and the inductive \<open>reachable\<close> collects the states
    a server reaches from the empty table by requests at non-decreasing times.
  \<^item> \<open>SumToN\<close>: the three summation functions over \<open>real\<close> (JavaScript
    numbers with exact arithmetic), each loop a recursive function proved to
    terminate by a ceiling measure.
  \<^item> This theory: properties across the components, stated on \<open>serve\<close>
    and \<open>run\<close>.

  \<^bold>\<open>What is proved.\<close> Round trip of create and get through the server
  (this theory); the invariants of the data model in every reachable state: one
  record per key, non-blank names, \<open>createdAt \<le> updatedAt \<le>\<close> the clock
  (\<open>Routes\<close>). In \<open>Persistence\<close>: the five operations refine a finite map
  from keys to \<open>Resource\<close>s (\<open>resource_view\<close>, built on the store's
  \<open>table_map\<close>); keys are never reused; the listing's count ignores
  pagination and its page is the \<open>[offset, offset + limit)\<close> slice in
  ascending key order; search is case-insensitive and selects exactly the
  records that contain the query; the partial update on every branch; when
  create succeeds and what it writes; delete is final; the error paths. In
  \<open>JsText\<close>: \<open>parseInt\<close> of an encoded key followed by any non-digit text.
  In \<open>SumToN\<close>: what the summation functions compute and where they agree.
  The findings the theorems show: \<open>limit=0\<close> lists 20 records, not 1
  (computed in \<open>Routes.limit_clamp_samples\<close>); an id without a leading numeral makes get and
  update throw instead of answering not found (\<open>Persistence.unparsable_id\<close>);
  a delete between the two calls of an update makes the update throw
  (\<open>Persistence.update_after_concurrent_delete\<close>); \<open>parseInt\<close> accepts
  ids such as \<open>7abc\<close> (\<open>JsText.decode_ignores_suffix\<close>); a non-string
  \<open>details\<close> is a thrown validation error; the summation functions disagree on
  negative and fractional inputs.

  \<^bold>\<open>Modelling choices and bounds.\<close> Strings are lists of code units below 256
  (\<open>char\<close>); white space is the ECMAScript set on that range and case folding
  is ASCII. A JavaScript \<open>-0\<close> is the integer 0, \<open>NaN\<close> is \<open>None\<close>, numbers
  parsed from ids and query strings are unbounded integers (the 32-bit bound of
  the key column is checked where the client checks it). The clock is an
  argument \<open>now\<close> of every writing call; both timestamps of a new row are that
  \<open>now\<close>. No fuel is needed: every loop of the program is a terminating
  function.

  \<^bold>\<open>Not modelled.\<close> Express's JSON and URL parsing (a body or query value
  that is an array or object), the process and its I/O (\<open>listen\<close>,
  \<open>console\<close>, \<open>process.exit\<close>, \<open>run.ts\<close>), the database's wildcard
  handling of \<open>%\<close> and \<open>_\<close> in \<open>contains\<close>, limits of \<open>skip\<close> beyond 32
  bits, floating-point rounding in \<open>src/problem4\<close>.

  \<^bold>\<open>Plan for later additions.\<close> Properties of \<open>to_iso_string\<close> (fixed
  length, order preservation, so that \<open>createdAt \<le> updatedAt\<close> shows in the
  external strings); concurrent interleavings of \<open>listResources\<close>' two queries;
  the bounds under which the summation functions are exact in doubles.
\<close>

section \<open>Example data\<close>

abbreviation widget_row :: row where
  "widget_row \<equiv> \<lparr>row_id = 1, row_name = ''Widget'', row_details = ''blue'', row_created = 1, row_updated = 1\<rparr>"

section \<open>Properties across the components\<close>

lemma post_resources_created:
  assumes "post_resources t b now = (Respond 201 (ResourceReply r), t')"
  shows "\<exists>inp. createResource t inp now = Inr (r, t')"
  using assms by (auto simp: post_resources_def split: jval.splits if_splits sum.splits)

text \<open>C1: Round trip through the server: in every reachable state, a
  \<open>POST /resources\<close> answered with 201 and a resource is followed, at any
  later time, by \<open>GET /resources/:id\<close> at that resource's id answering 200
  with the same resource.\<close>

theorem post_then_get:
  assumes "reachable t clk"
    and "serve t now (PostResources b) = (Respond 201 (ResourceReply r), t')"
  shows "serve t' now' (GetResource (res_id r)) = (Respond 200 (ResourceReply r), t')"
proof -
  from reachable_server_inv [OF assms(1)] have "table_inv t" by (simp add: server_inv_def)
  moreover from assms(2) have "post_resources t b now = (Respond 201 (ResourceReply r), t')" by simp
  then obtain inp where "createResource t inp now = Inr (r, t')"
    using post_resources_created by blast
  ultimately have "getResource t' (res_id r) = Inr (Some r)" by (rule get_after_create)
  then show ?thesis by (simp add: get_resource_def)
qed

theorem post_then_get_witness:
  "reachable (migrate empty_table) 0 \<and>
   serve (migrate empty_table) 1 (PostResources \<lparr>body_name = JString ''Widget'', body_details = JString ''blue''\<rparr>) =
     (Respond 201 (ResourceReply (mapResource widget_row)), \<lparr>rows = [widget_row], next_key = 2\<rparr>) \<and>
   serve \<lparr>rows = [widget_row], next_key = 2\<rparr> 2 (GetResource (res_id (mapResource widget_row))) =
     (Respond 200 (ResourceReply (mapResource widget_row)), \<lparr>rows = [widget_row], next_key = 2\<rparr>)"
proof -
  have r: "reachable (migrate empty_table) 0" by (rule reachable.boot)
  have p: "serve (migrate empty_table) 1 (PostResources \<lparr>body_name = JString ''Widget'', body_details = JString ''blue''\<rparr>) =
     (Respond 201 (ResourceReply (mapResource widget_row)), \<lparr>rows = [widget_row], next_key = 2\<rparr>)"
    by (simp add: routes_defs createResource_def db_create_def string_arg_def nullish_default_def migrate_def empty_table_def int32_max_def Let_def js_text_defs)
  show ?thesis using r p post_then_get [OF r p, of 2] by simp
qed


end
